theory Spec2Isabelle
  imports
    Complex_Main
    "HOL-Library.Sublist"
    "HOL-Library.Char_ord"
    "HOL-Library.List_Lexorder"
    "HOL-Library.Product_Lexorder"
    "HOL-Library.Multiset"
begin

section \<open>Data model\<close>

text \<open>
  The scripts work on pandas frames. A cell of a column is null (\<open>None\<close>, \<open>NaN\<close>,
  \<open>NaT\<close>), a string as it came out of the JSON document, or a value of the column's
  target type (a float for a coordinate, a timestamp for a date). Floats are modelled
  by the real numbers they denote.
\<close>

datatype 'a cell = Null | Str string | Val 'a

record date =
  year :: nat
  month :: nat
  day :: nat

text \<open>
  One row of the frame the three map scripts read (\<open>fta_deadly_events_map.py\<close>,
  \<open>fta_nyc_basemap.py\<close>, \<open>fta_nyc_time_slider_map.py\<close>): the columns these scripts
  touch. \<open>agency\<close>, \<open>event_type\<close> and \<open>location_type\<close> are string columns with nulls;
  \<open>total_fatalities\<close> is a numeric column, \<open>None\<close> standing for \<open>NaN\<close>.
\<close>

record safety_event =
  agency :: "string option"
  total_fatalities :: "int option"
  latitude :: "real cell"
  longitude :: "real cell"
  incident_date :: "date cell"
  event_type :: "string option"
  location_type :: "string option"

type_synonym frame = "safety_event list"

text \<open>Boolean indexing \<open>df[mask]\<close>: the rows whose mask entry is true, in order.\<close>

definition select_mask :: "'a list \<Rightarrow> bool list \<Rightarrow> 'a list" where
  "select_mask df bs = map fst (filter snd (zip df bs))"

text \<open>The exceptions the modelled code can raise.\<close>

datatype py_error = KeyError | TypeError | AttributeError

section \<open>Strings\<close>

text \<open>\<open>str.upper\<close> and \<open>str.lower\<close> on the ASCII letters; other characters are unchanged.\<close>

definition lower_letters :: string where
  "lower_letters = ''abcdefghijklmnopqrstuvwxyz''"

definition upper_letters :: string where
  "upper_letters = ''ABCDEFGHIJKLMNOPQRSTUVWXYZ''"

definition upper_char :: "char \<Rightarrow> char" where
  "upper_char c = (case map_of (zip lower_letters upper_letters) c of None \<Rightarrow> c | Some u \<Rightarrow> u)"

definition lower_char :: "char \<Rightarrow> char" where
  "lower_char c = (case map_of (zip upper_letters lower_letters) c of None \<Rightarrow> c | Some l \<Rightarrow> l)"

definition str_upper :: "string \<Rightarrow> string" where
  "str_upper s = map upper_char s"

definition str_lower :: "string \<Rightarrow> string" where
  "str_lower s = map lower_char s"

text \<open>\<open>sep.join(parts)\<close>.\<close>

fun join :: "string \<Rightarrow> string list \<Rightarrow> string" where
  "join sep [] = []"
| "join sep [p] = p"
| "join sep (p # q # ps) = p @ sep @ join sep (q # ps)"

text \<open>Python's \<open>needle in haystack\<close> on strings: a scan over the start positions.\<close>

fun starts_with :: "string \<Rightarrow> string \<Rightarrow> bool" where
  "starts_with [] s = True"
| "starts_with (c # cs) [] = False"
| "starts_with (c # cs) (d # ds) = (c = d \<and> starts_with cs ds)"

fun str_in :: "string \<Rightarrow> string \<Rightarrow> bool" where
  "str_in needle [] = starts_with needle []"
| "str_in needle (d # ds) = (starts_with needle (d # ds) \<or> str_in needle ds)"

text \<open>
  \<open>Series.str.contains(pat)\<close> searches a regular expression. Every pattern of the
  scripts is an alternation \<open>A|B|...\<close> of literals with no other metacharacter: the
  pattern is cut at the bars and the search succeeds when one alternative occurs.
\<close>

fun split_bar :: "string \<Rightarrow> string \<Rightarrow> string list" where
  "split_bar acc [] = [rev acc]"
| "split_bar acc (c # cs) =
     (if c = CHR ''|'' then rev acc # split_bar [] cs else split_bar (c # acc) cs)"

definition regex_search :: "string \<Rightarrow> string \<Rightarrow> bool" where
  "regex_search pat s = list_ex (\<lambda>alt. str_in alt s) (split_bar [] pat)"

text \<open>The \<open>.str\<close> accessor maps nulls to nulls; \<open>contains(..., na=False)\<close> maps them to False.\<close>

definition series_str_upper :: "string option list \<Rightarrow> string option list" where
  "series_str_upper col = map (map_option str_upper) col"

definition series_str_contains :: "string \<Rightarrow> string option list \<Rightarrow> bool list" where
  "series_str_contains pat col =
     map (\<lambda>c. case c of None \<Rightarrow> False | Some s \<Rightarrow> regex_search pat s) col"

section \<open>Agency filter of the map scripts\<close>

definition ny_keywords :: "string list" where
  "ny_keywords = [''NEW YORK'', ''NYC'', ''MTA'', ''METROPOLITAN TRANSPORTATION'']"

text \<open>
  \<open>filter_new_york_data\<close> gets the frame as \<open>pd.read_json\<close> built it. A download of
  no records gives a frame with no columns, and \<open>df['agency']\<close> raises. A column whose
  cells are all null is read as a float column, and the \<open>.str\<close> accessor raises on
  it. With one string in the column it is an object column and the mask is computed.
\<close>

definition filter_new_york_data :: "frame \<Rightarrow> py_error + frame" where
  "filter_new_york_data df =
     (if df = [] then Inl KeyError
      else if \<not> list_ex (\<lambda>r. agency r \<noteq> None) df then Inl AttributeError
      else Inr (select_mask df
        (series_str_contains (join ''|'' ny_keywords) (series_str_upper (map agency df)))))"

text \<open>
  The agency filter as the specification words it: the upper-cased agency name is
  present and has one of the keywords as a contiguous substring.
\<close>

definition agency_matches :: "safety_event \<Rightarrow> bool" where
  "agency_matches r =
     (\<exists>a k. agency r = Some a \<and> k \<in> set ny_keywords \<and> sublist k (str_upper a))"

section \<open>Coercion of columns\<close>

text \<open>
  With \<open>errors='coerce'\<close> a conversion never raises: a null stays null, a value of
  the target type stays, a string is parsed, and a string that does not parse becomes
  null. \<open>pd.to_numeric\<close> parses every cell on its own; its parser of strings belongs
  to pandas and is the parameter \<open>p\<close>.
\<close>

definition coerce :: "(string \<Rightarrow> 'a option) \<Rightarrow> 'a cell \<Rightarrow> 'a cell" where
  "coerce p c =
     (case c of
        Null \<Rightarrow> Null
      | Val v \<Rightarrow> Val v
      | Str s \<Rightarrow> (case p s of None \<Rightarrow> Null | Some v \<Rightarrow> Val v))"

definition notna :: "'a cell \<Rightarrow> bool" where
  "notna c = (c \<noteq> Null)"

text \<open>
  \<open>pd.to_datetime(col, errors='coerce')\<close> looks at the whole column: it guesses a
  format from the first non-null value and then parses every string with that format
  alone; when that value is no string, or no format is guessed from it, every string is
  parsed on its own by the fallback parser. The three functions belong to pandas and
  are parameters; \<open>'f\<close> is the type of formats.
\<close>

record 'f datetime_parser =
  guess_format :: "string \<Rightarrow> 'f option"
  strptime :: "'f \<Rightarrow> string \<Rightarrow> date option"
  parse_dateutil :: "string \<Rightarrow> date option"

definition column_parser :: "'f datetime_parser \<Rightarrow> date cell list \<Rightarrow> string \<Rightarrow> date option" where
  "column_parser G col =
     (case find (\<lambda>c. c \<noteq> Null) col of
        Some (Str s) \<Rightarrow>
          (case guess_format G s of Some f \<Rightarrow> strptime G f | None \<Rightarrow> parse_dateutil G)
      | _ \<Rightarrow> parse_dateutil G)"

definition to_datetime :: "'f datetime_parser \<Rightarrow> date cell list \<Rightarrow> date cell list" where
  "to_datetime G col = map (coerce (column_parser G col)) col"

text \<open>
  Comparisons of a float column with a constant: false on a null (\<open>NaN\<close>). The
  columns compared have been through \<open>coerce\<close>, which leaves no string behind.
\<close>

definition cell_ge :: "real cell \<Rightarrow> real \<Rightarrow> bool" where
  "cell_ge c x = (case c of Val v \<Rightarrow> x \<le> v | _ \<Rightarrow> False)"

definition cell_le :: "real cell \<Rightarrow> real \<Rightarrow> bool" where
  "cell_le c x = (case c of Val v \<Rightarrow> v \<le> x | _ \<Rightarrow> False)"

text \<open>\<open>df['total_fatalities'] > 0\<close>: false on \<open>NaN\<close>.\<close>

definition fatal :: "safety_event \<Rightarrow> bool" where
  "fatal r = (case total_fatalities r of None \<Rightarrow> False | Some n \<Rightarrow> 0 < n)"

section \<open>prepare\_fatal\_events\<close>

text \<open>
  The three map scripts each define \<open>prepare_fatal_events\<close>. Every statement of the
  source is one binding; a boolean index computed row by row is a \<open>filter\<close>.
\<close>

definition prepare_fatal_events_deadly :: "(string \<Rightarrow> real option) \<Rightarrow> frame \<Rightarrow> frame" where
  "prepare_fatal_events_deadly pn df =
     (let fatal_df = filter fatal df;
          fatal_df = filter (\<lambda>r. notna (latitude r) \<and> notna (longitude r)) fatal_df;
          fatal_df = map (\<lambda>r. r\<lparr>latitude := coerce pn (latitude r)\<rparr>) fatal_df;
          fatal_df = map (\<lambda>r. r\<lparr>longitude := coerce pn (longitude r)\<rparr>) fatal_df;
          fatal_df = filter (\<lambda>r. notna (latitude r) \<and> notna (longitude r)) fatal_df
      in fatal_df)"

definition prepare_fatal_events_basemap :: "(string \<Rightarrow> real option) \<Rightarrow> frame \<Rightarrow> frame" where
  "prepare_fatal_events_basemap pn df =
     (let fatal_df = filter fatal df;
          fatal_df = filter (\<lambda>r. notna (latitude r) \<and> notna (longitude r)) fatal_df;
          fatal_df = map (\<lambda>r. r\<lparr>latitude := coerce pn (latitude r)\<rparr>) fatal_df;
          fatal_df = map (\<lambda>r. r\<lparr>longitude := coerce pn (longitude r)\<rparr>) fatal_df;
          fatal_df = filter (\<lambda>r.
              notna (latitude r) \<and>
              notna (longitude r) \<and>
              cell_ge (latitude r) 40.4 \<and>
              cell_le (latitude r) 41.0 \<and>
              cell_ge (longitude r) (-74.3) \<and>
              cell_le (longitude r) (-73.7)) fatal_df
      in fatal_df)"

text \<open>
  The time-slider script also converts the date column, as it stands after the first
  two filters, and stores the result back row by row.
\<close>

definition prepare_fatal_events_slider ::
  "(string \<Rightarrow> real option) \<Rightarrow> 'f datetime_parser \<Rightarrow> frame \<Rightarrow> frame" where
  "prepare_fatal_events_slider pn G df =
     (let fatal_df = filter fatal df;
          fatal_df = filter (\<lambda>r. notna (latitude r) \<and> notna (longitude r)) fatal_df;
          fatal_df = map (\<lambda>r. r\<lparr>latitude := coerce pn (latitude r)\<rparr>) fatal_df;
          fatal_df = map (\<lambda>r. r\<lparr>longitude := coerce pn (longitude r)\<rparr>) fatal_df;
          fatal_df = map (\<lambda>(r, d). r\<lparr>incident_date := d\<rparr>)
                       (zip fatal_df (to_datetime G (map incident_date fatal_df)));
          fatal_df = filter (\<lambda>r.
              notna (latitude r) \<and>
              notna (longitude r) \<and>
              notna (incident_date r) \<and>
              cell_ge (latitude r) 40.4 \<and>
              cell_le (latitude r) 41.0 \<and>
              cell_ge (longitude r) (-74.3) \<and>
              cell_le (longitude r) (-73.7)) fatal_df
      in fatal_df)"

section \<open>The pipeline in the specification's order\<close>

text \<open>
  The specification puts the Event Normalizer before the Fatality Selector. The
  normalizer follows its words: parse latitude, longitude and incident date of the
  frame it is given, a field that fails to parse becoming absent; drop the rows with an
  absent latitude, longitude or, where a date is required, date; drop the rows outside
  the bounding box where one is given. The box is (south, north, west, east). The
  conversions are the program's, \<open>pd.to_numeric\<close> and \<open>pd.to_datetime\<close>, here on the
  whole frame.
\<close>

record normalizer_config =
  bounding_box :: "(real \<times> real \<times> real \<times> real) option"
  date_required :: bool

definition inside_box :: "(real \<times> real \<times> real \<times> real) option \<Rightarrow> safety_event \<Rightarrow> bool" where
  "inside_box b r =
     (case b of
        None \<Rightarrow> True
      | Some (south, north, west, east) \<Rightarrow>
          cell_ge (latitude r) south \<and> cell_le (latitude r) north \<and>
          cell_ge (longitude r) west \<and> cell_le (longitude r) east)"

definition spec_event_normalizer ::
  "normalizer_config \<Rightarrow> (string \<Rightarrow> real option) \<Rightarrow> 'f datetime_parser \<Rightarrow> frame \<Rightarrow> frame" where
  "spec_event_normalizer cfg pn G df =
     (let parsed = map (\<lambda>(r, d). r\<lparr>latitude := coerce pn (latitude r),
                                    longitude := coerce pn (longitude r),
                                    incident_date := d\<rparr>)
                     (zip df (to_datetime G (map incident_date df)));
          present = filter (\<lambda>r. notna (latitude r) \<and> notna (longitude r) \<and>
                                (if date_required cfg then notna (incident_date r) else True)) parsed
      in filter (inside_box (bounding_box cfg)) present)"

definition spec_fatality_selector :: "frame \<Rightarrow> frame" where
  "spec_fatality_selector df = filter (\<lambda>r. \<exists>n. total_fatalities r = Some n \<and> 0 < n) df"

definition nyc_box :: "real \<times> real \<times> real \<times> real" where
  "nyc_box = (40.4, 41.0, -74.3, -73.7)"

definition deadly_config :: normalizer_config where
  "deadly_config = \<lparr>bounding_box = None, date_required = False\<rparr>"

definition basemap_config :: normalizer_config where
  "basemap_config = \<lparr>bounding_box = Some nyc_box, date_required = False\<rparr>"

definition slider_config :: normalizer_config where
  "slider_config = \<lparr>bounding_box = Some nyc_box, date_required = True\<rparr>"

section \<open>What it means that a row is dropped\<close>

text \<open>
  \<open>stems_from pn out r\<close>: the output row \<open>out\<close> is the input row \<open>r\<close> with its
  coordinates converted and some date cell. \<open>never_parses G c\<close>: the date cell \<open>c\<close> is
  null, or a string that neither a format of \<open>G\<close> nor its fallback parser reads.
\<close>

definition stems_from :: "(string \<Rightarrow> real option) \<Rightarrow> safety_event \<Rightarrow> safety_event \<Rightarrow> bool" where
  "stems_from pn out r =
     (\<exists>d. out = r\<lparr>latitude := coerce pn (latitude r), longitude := coerce pn (longitude r),
                     incident_date := d\<rparr>)"

definition never_parses :: "'f datetime_parser \<Rightarrow> date cell \<Rightarrow> bool" where
  "never_parses G c =
     (case c of
        Null \<Rightarrow> True
      | Val d \<Rightarrow> False
      | Str s \<Rightarrow> (\<forall>f. strptime G f s = None) \<and> parse_dateutil G s = None)"

section \<open>Parsers for plain literals\<close>

text \<open>
  The examples need parsers at concrete strings. \<open>parse_decimal\<close> reads an optional
  sign, digits and an optional fraction, as \<open>pd.to_numeric\<close> does on such a string.
  \<open>parse_iso_date\<close> reads \<open>YYYY-MM-DD\<close> and \<open>parse_us_date\<close> reads \<open>MM/DD/YYYY\<close>;
  \<open>example_datetime\<close> knows these two formats, as \<open>pd.to_datetime\<close> does among
  others. The general theorems hold for any parsers.
\<close>

definition digit_of :: "char \<Rightarrow> nat option" where
  "digit_of c = map_of (zip ''0123456789'' [0, 1, 2, 3, 4, 5, 6, 7, 8, 9]) c"

fun digits_value :: "nat \<Rightarrow> string \<Rightarrow> nat option" where
  "digits_value acc [] = Some acc"
| "digits_value acc (c # cs) =
     (case digit_of c of None \<Rightarrow> None | Some d \<Rightarrow> digits_value (10 * acc + d) cs)"

definition parse_unsigned :: "string \<Rightarrow> real option" where
  "parse_unsigned s =
     (let ip = takeWhile (\<lambda>c. c \<noteq> CHR ''.'') s;
          fp = drop 1 (dropWhile (\<lambda>c. c \<noteq> CHR ''.'') s)
      in if ip = [] \<and> fp = [] then None
         else (case (digits_value 0 ip, digits_value 0 fp) of
                 (Some i, Some f) \<Rightarrow> Some (real i + real f / 10 ^ length fp)
               | _ \<Rightarrow> None))"

definition parse_decimal :: "string \<Rightarrow> real option" where
  "parse_decimal s =
     (if take 1 s = ''-'' then map_option uminus (parse_unsigned (drop 1 s))
      else if take 1 s = ''+'' then parse_unsigned (drop 1 s)
      else parse_unsigned s)"

definition leap_year :: "nat \<Rightarrow> bool" where
  "leap_year y = (y mod 4 = 0 \<and> (y mod 100 \<noteq> 0 \<or> y mod 400 = 0))"

definition days_in_month :: "nat \<Rightarrow> nat \<Rightarrow> nat" where
  "days_in_month y m =
     (if m = 2 then (if leap_year y then 29 else 28)
      else if m = 4 \<or> m = 6 \<or> m = 9 \<or> m = 11 then 30 else 31)"

definition parse_iso_date :: "string \<Rightarrow> date option" where
  "parse_iso_date s =
     (if length s = 10 \<and> take 1 (drop 4 s) = ''-'' \<and> take 1 (drop 7 s) = ''-'' then
        (case (digits_value 0 (take 4 s), digits_value 0 (take 2 (drop 5 s)),
               digits_value 0 (drop 8 s)) of
           (Some y, Some m, Some d) \<Rightarrow>
             if 1 \<le> m \<and> m \<le> 12 \<and> 1 \<le> d \<and> d \<le> days_in_month y m
             then Some \<lparr>year = y, month = m, day = d\<rparr> else None
         | _ \<Rightarrow> None)
      else None)"

definition parse_us_date :: "string \<Rightarrow> date option" where
  "parse_us_date s =
     (if length s = 10 \<and> take 1 (drop 2 s) = ''/'' \<and> take 1 (drop 5 s) = ''/'' then
        (case (digits_value 0 (take 2 s), digits_value 0 (take 2 (drop 3 s)),
               digits_value 0 (drop 6 s)) of
           (Some m, Some d, Some y) \<Rightarrow>
             if 1 \<le> m \<and> m \<le> 12 \<and> 1 \<le> d \<and> d \<le> days_in_month y m
             then Some \<lparr>year = y, month = m, day = d\<rparr> else None
         | _ \<Rightarrow> None)
      else None)"

datatype date_format = Year_month_day | Month_day_year

definition example_datetime :: "date_format datetime_parser" where
  "example_datetime =
     \<lparr>guess_format = (\<lambda>s. if parse_iso_date s \<noteq> None then Some Year_month_day
                            else if parse_us_date s \<noteq> None then Some Month_day_year
                            else None),
      strptime = (\<lambda>f. case f of Year_month_day \<Rightarrow> parse_iso_date
                               | Month_day_year \<Rightarrow> parse_us_date),
      parse_dateutil = (\<lambda>s. case parse_iso_date s of Some d \<Rightarrow> Some d
                                 | None \<Rightarrow> parse_us_date s)\<rparr>"

section \<open>The example rows of the specification\<close>

text \<open>
  The two rows of the specification's example. The example gives no event type; it
  is the parameter, and the location type is null.
\<close>

definition example_mta :: "string option \<Rightarrow> safety_event" where
  "example_mta e = \<lparr>agency = Some ''MTA NYC TRANSIT'', total_fatalities = Some 2,
     latitude = Str ''40.75'', longitude = Str ''-73.98'', incident_date = Str ''2019-03-01'',
     event_type = e, location_type = None\<rparr>"

definition example_la :: "string option \<Rightarrow> safety_event" where
  "example_la e = \<lparr>agency = Some ''LA METRO'', total_fatalities = Some 1,
     latitude = Str ''34.0'', longitude = Str ''-118.2'', incident_date = Str ''2019-04-01'',
     event_type = e, location_type = None\<rparr>"

text \<open>A fatal row of a New York agency whose coordinates are not on the globe.\<close>

definition example_far :: safety_event where
  "example_far = \<lparr>agency = Some ''MTA NYC TRANSIT'', total_fatalities = Some 1,
     latitude = Str ''95.0'', longitude = Str ''200.0'', incident_date = Str ''2019-03-01'',
     event_type = Some ''Suicide'', location_type = None\<rparr>"

section \<open>Aggregation\<close>

text \<open>
  \<open>df.groupby(key)\<close> with the defaults \<open>sort=True, dropna=True\<close>: one group per
  distinct non-null key, in ascending key order; a row whose key is null belongs to
  no group; the rows of a group keep the order of the frame.
\<close>

definition groupby :: "('r \<Rightarrow> 'k::linorder option) \<Rightarrow> 'r list \<Rightarrow> ('k \<times> 'r list) list" where
  "groupby key rows =
     map (\<lambda>k. (k, filter (\<lambda>r. key r = Some k) rows))
       (sort (remdups (List.map_filter key rows)))"

text \<open>\<open>'sum'\<close> skips \<open>NaN\<close>; \<open>'count'\<close> counts the non-null cells.\<close>

definition series_sum :: "int option list \<Rightarrow> int" where
  "series_sum col = sum_list (map (\<lambda>c. case c of None \<Rightarrow> 0 | Some n \<Rightarrow> n) col)"

definition series_count :: "'a cell list \<Rightarrow> nat" where
  "series_count col = length (filter notna col)"

text \<open>
  \<open>Series.mode()\<close> with the default \<open>dropna=True\<close>: the non-null values that occur
  most often, sorted ascending; empty when every cell is null.
\<close>

definition series_mode :: "string option list \<Rightarrow> string list" where
  "series_mode col =
     (let vs = List.map_filter id col;
          top = fold max (map (count_list vs) vs) 0
      in sort (filter (\<lambda>v. count_list vs v = top) (remdups vs)))"

text \<open>
  The aggregation function of the source,
  \<open>lambda x: x.mode()[0] if len(x) > 0 else 'Unknown'\<close>. \<open>len\<close> counts the nulls too;
  \<open>[0]\<close> on an empty result raises.
\<close>

definition mode_or_unknown :: "string option list \<Rightarrow> py_error + string" where
  "mode_or_unknown x =
     (if length x > 0 then (case series_mode x of [] \<Rightarrow> Inl KeyError | m # _ \<Rightarrow> Inr m)
      else Inr ''Unknown'')"

text \<open>The first error of a list of results, or all the values.\<close>

fun collect :: "('e + 'a) list \<Rightarrow> 'e + 'a list" where
  "collect [] = Inr []"
| "collect (x # xs) =
     (case x of
        Inl e \<Rightarrow> Inl e
      | Inr v \<Rightarrow> (case collect xs of Inl e \<Rightarrow> Inl e | Inr vs \<Rightarrow> Inr (v # vs)))"

text \<open>
  \<open>Series.round(3)\<close> on floats rounds half to even at the third decimal.
\<close>

definition round_half_even :: "real \<Rightarrow> int" where
  "round_half_even x =
     (let f = \<lfloor>x\<rfloor>; d = x - of_int f
      in if d < 1 / 2 then f else if 1 / 2 < d then f + 1 else if even f then f else f + 1)"

definition round3 :: "real \<Rightarrow> real" where
  "round3 x = of_int (round_half_even (x * 1000)) / 1000"

definition is_str :: "'a cell \<Rightarrow> bool" where
  "is_str c = (case c of Str s \<Rightarrow> True | _ \<Rightarrow> False)"

text \<open>
  The grouping key \<open>(lat_rounded, lon_rounded)\<close> of a row; null when a coordinate is.
\<close>

definition rounded_key :: "safety_event \<Rightarrow> (real \<times> real) option" where
  "rounded_key r =
     (case (latitude r, longitude r) of
        (Val x, Val y) \<Rightarrow> Some (round3 x, round3 y)
      | _ \<Rightarrow> None)"

record location_bucket =
  lat_rounded :: real
  lon_rounded :: real
  sum_fatalities :: int
  num_incidents :: nat
  top_event_type :: string
  top_location_type :: string

definition agg_location :: "(real \<times> real) \<times> safety_event list \<Rightarrow> py_error + location_bucket" where
  "agg_location g =
     (case mode_or_unknown (map event_type (snd g)) of
        Inl e \<Rightarrow> Inl e
      | Inr et \<Rightarrow>
          (case mode_or_unknown (map location_type (snd g)) of
             Inl e \<Rightarrow> Inl e
           | Inr lt \<Rightarrow>
               Inr \<lparr>lat_rounded = fst (fst g), lon_rounded = snd (fst g),
                    sum_fatalities = series_sum (map total_fatalities (snd g)),
                    num_incidents = series_count (map incident_date (snd g)),
                    top_event_type = et, top_location_type = lt\<rparr>))"

text \<open>
  The frame \<open>location_fatalities\<close> of \<open>print_deadliest_locations\<close>
  (\<open>fta_deadly_events_map.py\<close>): rounding, grouping, aggregation, and
  \<open>sort_values('total_fatalities', ascending=False)\<close>. Rounding a column that holds a
  string raises. The sort is modelled by a stable sort; pandas promises no order among
  buckets with equal sums.
\<close>

definition location_fatalities :: "frame \<Rightarrow> py_error + location_bucket list" where
  "location_fatalities df =
     (if list_ex (\<lambda>r. is_str (latitude r) \<or> is_str (longitude r)) df then Inl TypeError
      else (case collect (map agg_location (groupby rounded_key df)) of
              Inl e \<Rightarrow> Inl e
            | Inr t \<Rightarrow> Inr (sort_key (\<lambda>b. - sum_fatalities b) t)))"

text \<open>
  The table \<open>print_deadliest_locations\<close> prints: nothing for an empty frame, else the
  first 15 rows of \<open>location_fatalities\<close>.
\<close>

definition print_deadliest_locations :: "frame \<Rightarrow> py_error + location_bucket list" where
  "print_deadliest_locations df =
     (if length df = 0 then Inr []
      else (case location_fatalities df of Inl e \<Rightarrow> Inl e | Inr t \<Rightarrow> Inr (take 15 t)))"

text \<open>
  The frames \<open>event_summary\<close> (\<open>print_summary\<close> of \<open>fta_nyc_basemap.py\<close>,
  \<open>print_temporal_summary\<close> of \<open>fta_nyc_time_slider_map.py\<close>) and \<open>month_summary\<close>
  (\<open>print_temporal_summary\<close>): per key the sum of the fatalities and the count of the
  key column, sorted descending by the sum.
\<close>

record 'k summary_row =
  bucket_key :: 'k
  deaths :: int
  incidents :: nat

definition summarize :: "('r \<Rightarrow> 'k option) \<Rightarrow> ('r \<Rightarrow> int option) \<Rightarrow> 'k \<times> 'r list \<Rightarrow> 'k summary_row" where
  "summarize key fat g =
     \<lparr>bucket_key = fst g, deaths = series_sum (map fat (snd g)),
      incidents = length (filter (\<lambda>r. key r \<noteq> None) (snd g))\<rparr>"

definition event_summary :: "frame \<Rightarrow> string summary_row list" where
  "event_summary df =
     sort_key (\<lambda>b. - deaths b) (map (summarize event_type total_fatalities) (groupby event_type df))"

text \<open>
  \<open>df['incident_date'].dt.to_period('M')\<close>: the (year, month) of a timestamp, null on
  \<open>NaT\<close>; the \<open>.dt\<close> accessor raises on a column that is not a datetime column.
\<close>

definition year_month :: "safety_event \<Rightarrow> (nat \<times> nat) option" where
  "year_month r = (case incident_date r of Val d \<Rightarrow> Some (year d, month d) | _ \<Rightarrow> None)"

definition month_summary :: "frame \<Rightarrow> py_error + (nat \<times> nat) summary_row list" where
  "month_summary df =
     (if list_ex (\<lambda>r. is_str (incident_date r)) df then Inl AttributeError
      else Inr (sort_key (\<lambda>b. - deaths b)
                  (map (summarize year_month total_fatalities) (groupby year_month df))))"

text \<open>\<open>df['total_fatalities'].sum()\<close>.\<close>

definition total_deaths :: "frame \<Rightarrow> int" where
  "total_deaths df = series_sum (map total_fatalities df)"

section \<open>Modal values, as the specification words them\<close>

text \<open>
  \<open>modal col v\<close>: \<open>v\<close> is a non-null value of the column and no non-null value
  occurs more often. \<open>least_modal col v\<close>: \<open>v\<close> is the smallest modal value in the
  order of Python strings.
\<close>

definition modal :: "string option list \<Rightarrow> string \<Rightarrow> bool" where
  "modal col v =
     (Some v \<in> set col \<and>
      (\<forall>w. Some w \<in> set col \<longrightarrow> count_list col (Some w) \<le> count_list col (Some v)))"

definition least_modal :: "string option list \<Rightarrow> string \<Rightarrow> bool" where
  "least_modal col v = (modal col v \<and> (\<forall>w. modal col w \<longrightarrow> v \<le> w))"

text \<open>A fatal row at numeric coordinates, for the examples of the aggregation.\<close>

definition fatal_at :: "real \<Rightarrow> real \<Rightarrow> int \<Rightarrow> string option \<Rightarrow> string option \<Rightarrow> safety_event" where
  "fatal_at x y n e l = \<lparr>agency = Some ''MTA NYC TRANSIT'', total_fatalities = Some n,
     latitude = Val x, longitude = Val y, incident_date = Str ''2019-03-01'',
     event_type = e, location_type = l\<rparr>"

text \<open>
  What a row of the rounded-coordinate table says about the frame: its rows are the
  non-empty group of the frame at the bucket's rounded coordinates, its sum is over
  their non-null fatalities, its count is the number of the rows when each has an
  incident date, and its two labels are the least modal event type and location type
  of the group.
\<close>

definition bucket_of :: "frame \<Rightarrow> location_bucket \<Rightarrow> bool" where
  "bucket_of df b =
     (let rows = filter (\<lambda>r. rounded_key r = Some (lat_rounded b, lon_rounded b)) df
      in rows \<noteq> []
         \<and> sum_fatalities b = (\<Sum>r\<leftarrow>rows. case total_fatalities r of None \<Rightarrow> 0 | Some n \<Rightarrow> n)
         \<and> (list_all (\<lambda>r. incident_date r \<noteq> Null) rows \<longrightarrow> num_incidents b = length rows)
         \<and> least_modal (map event_type rows) (top_event_type b)
         \<and> least_modal (map location_type rows) (top_location_type b))"

section \<open>Console and log output\<close>

text \<open>
  What a run writes, in order: a log record with its level, a printed text, a printed
  label followed by a list of column names, and the exception that ends a run when
  nothing catches it. \<open>str_nat\<close> is Python's \<open>str\<close> on a length, as the f-strings of
  the log messages use it.
\<close>

datatype level = INFO | WARNING | ERROR

datatype event = Log level string | Print string | Show string "string list" | Uncaught py_error

definition digit_char :: "nat \<Rightarrow> char" where
  "digit_char d = ''0123456789'' ! d"

fun str_nat :: "nat \<Rightarrow> string" where
  "str_nat n = (if n < 10 then [digit_char n] else str_nat (n div 10) @ [digit_char (n mod 10)])"

declare str_nat.simps [simp del]

definition nl :: char where
  "nl = CHR 0x0A"

section \<open>load\_fta\_data\<close>

text \<open>
  The download is the input of a run: \<open>Inl e\<close> when \<open>pd.read_json\<close> raised with message
  \<open>e\<close>, \<open>Inr df\<close> when it returned the frame \<open>df\<close> of \<open>n\<close> rows. The function is the same
  in the four scripts; it returns its log records and the frame or \<open>None\<close>.
\<close>

definition load_fta_data :: "('f \<Rightarrow> nat) \<Rightarrow> string + 'f \<Rightarrow> event list \<times> 'f option" where
  "load_fta_data len fetched =
     (case fetched of
        Inr df \<Rightarrow>
          ([Log INFO ''Downloading FTA Major Safety Events data...'',
            Log INFO (''Successfully loaded '' @ str_nat (len df) @ '' safety events'')],
           Some df)
      | Inl e \<Rightarrow>
          ([Log INFO ''Downloading FTA Major Safety Events data...'',
            Log ERROR (''Failed to load data: '' @ e)],
           None))"

section \<open>fta\_safety\_analysis.py\<close>

text \<open>
  This script looks columns up by name, so its frame carries the column names; a row
  gives the cell of each column. The \<open>.str\<close> accessor works on an object column,
  where a cell that is not a string gives a null; on a column of a frame with rows
  that holds no string (a numeric column, or one of nulls only) it raises.
  \<open>astype(str)\<close> turns a null into \<open>nan\<close> and formats a float with Python's \<open>str\<close>,
  the parameter \<open>fmt\<close>.
\<close>

record table =
  col_names :: "string list"
  records :: "(string \<Rightarrow> real cell) list"

definition column :: "table \<Rightarrow> string \<Rightarrow> real cell list" where
  "column df c = map (\<lambda>r. r c) (records df)"

definition str_accessor :: "real cell \<Rightarrow> string option" where
  "str_accessor c = (case c of Str s \<Rightarrow> Some s | _ \<Rightarrow> None)"

definition str_column :: "real cell list \<Rightarrow> py_error + string option list" where
  "str_column col =
     (if col \<noteq> [] \<and> \<not> list_ex is_str col then Inl AttributeError
      else Inr (map str_accessor col))"

definition astype_str :: "(real \<Rightarrow> string) \<Rightarrow> real cell \<Rightarrow> string option" where
  "astype_str fmt c = (case c of Null \<Rightarrow> Some ''nan'' | Val x \<Rightarrow> Some (fmt x) | Str s \<Rightarrow> Some s)"

definition location_like :: "string \<Rightarrow> bool" where
  "location_like col =
     (str_in ''location'' (str_lower col) \<or> str_in ''city'' (str_lower col) \<or>
      str_in ''state'' (str_lower col) \<or> str_in ''agency'' (str_lower col))"

text \<open>
  \<open>filter_new_york_data\<close> of this script: what it writes, and the frame it returns or
  the exception it raises. The last log record is written only when it returns.
\<close>

definition filter_new_york_data_analysis ::
  "(real \<Rightarrow> string) \<Rightarrow> table \<Rightarrow> event list \<times> (py_error + table)" where
  "filter_new_york_data_analysis fmt df =
     (let out = [Log INFO ''Filtering for New York transit agencies...'',
                 Show (nl # ''Available columns:'') (col_names df)];
          (out, ny_data) =
            (if ''state'' \<in> set (col_names df) then
               (out, case str_column (column df ''state'') of
                       Inl e \<Rightarrow> Inl e
                     | Inr col \<Rightarrow>
                         Inr (df\<lparr>records := select_mask (records df)
                                (map (\<lambda>c. c = Some ''NY'') (series_str_upper col))\<rparr>))
             else if ''agency_name'' \<in> set (col_names df) then
               (out, case str_column (column df ''agency_name'') of
                       Inl e \<Rightarrow> Inl e
                     | Inr col \<Rightarrow>
                         Inr (df\<lparr>records := select_mask (records df)
                                (series_str_contains (join ''|'' ny_keywords)
                                   (series_str_upper col))\<rparr>))
             else
               (let location_cols = filter location_like (col_names df);
                    out = out @ [Show (nl # ''Found potential location columns:'') location_cols]
                in case location_cols of
                     c # _ \<Rightarrow>
                       (out, Inr (df\<lparr>records := select_mask (records df)
                          (series_str_contains ''NEW YORK|NY|NYC|MTA''
                             (series_str_upper (map (astype_str fmt) (column df c))))\<rparr>))
                   | [] \<Rightarrow>
                       (out @ [Log WARNING ''Could not identify location field. Showing all data.''],
                        Inr df)))
      in case ny_data of
           Inl e \<Rightarrow> (out, Inl e)
         | Inr ny \<Rightarrow>
             (out @ [Log INFO (''Found '' @ str_nat (length (records ny)) @ '' incidents in New York'')],
              Inr ny))"

text \<open>
  \<open>main\<close> of \<open>fta_safety_analysis.py\<close>. What \<open>explore_dataset\<close> and the three analyses
  print is taken as given (\<open>explore\<close>, \<open>analyze\<close>): tables rendered by pandas.
\<close>

definition main_analysis ::
  "(real \<Rightarrow> string) \<Rightarrow> (table \<Rightarrow> event list) \<Rightarrow> (table \<Rightarrow> event list) \<Rightarrow> string + table \<Rightarrow> event list" where
  "main_analysis fmt explore analyze fetched =
     (let out = [Log INFO ''Starting FTA Safety Events Analysis for New York...''];
          (loaded, df) = load_fta_data (\<lambda>df. length (records df)) fetched;
          out = out @ loaded
      in case df of
           None \<Rightarrow> out @ [Log ERROR ''Cannot proceed without data'']
         | Some df \<Rightarrow>
             (let out = out @ explore df;
                  (filtered, ny_df) = filter_new_york_data_analysis fmt df;
                  out = out @ filtered
              in case ny_df of
                   Inl e \<Rightarrow> out @ [Uncaught e]
                 | Inr ny_df \<Rightarrow>
                     if length (records ny_df) = 0 then
                       out @ [Log WARNING ''No New York data found. Showing guidance for manual filtering.'',
                              Print (nl # ''Please review the dataset columns above and filter manually.'')]
                     else
                       out @ analyze ny_df
                         @ [Print (nl # replicate 70 CHR ''=''), Print ''ANALYSIS COMPLETE'',
                            Print (replicate 70 CHR ''=''),
                            Print (nl # ''Total incidents analyzed: '' @ str_nat (length (records ny_df)))]))"

section \<open>main of the map scripts\<close>

text \<open>
  The log records of \<open>prepare_fatal_events\<close>, whose frames are modelled above.
  \<open>fatal_word\<close> is the end of the last message: the scripts differ in it.
\<close>

definition prepare_fatal_events_log :: "string \<Rightarrow> frame \<Rightarrow> frame \<Rightarrow> event list" where
  "prepare_fatal_events_log fatal_word df fatal_df =
     [Log INFO ''Filtering for fatal events with location data...'',
      Log INFO (''Found '' @ str_nat (length (filter fatal df)) @ '' fatal incidents''),
      Log INFO (''Found '' @ str_nat (length fatal_df) @ '' fatal incidents with valid '' @ fatal_word)]"

text \<open>
  \<open>main\<close> of a map script: \<open>start\<close> is its first log message, \<open>prepare\<close> its
  \<open>prepare_fatal_events\<close>, \<open>place\<close> the end of its error message, and \<open>report\<close> all it
  writes after the emptiness check (tables, figure or map): rendering, taken as given.
  \<open>filter_new_york_data\<close> logs its first message, computes the frame, which can raise,
  and logs the count.
\<close>

definition main_map ::
  "string \<Rightarrow> (frame \<Rightarrow> frame) \<Rightarrow> string \<Rightarrow> string \<Rightarrow> (frame \<Rightarrow> event list) \<Rightarrow> string + frame \<Rightarrow> event list" where
  "main_map start prepare fatal_word place report fetched =
     (let out = [Log INFO start];
          (loaded, df) = load_fta_data length fetched;
          out = out @ loaded
      in case df of
           None \<Rightarrow> out @ [Log ERROR ''Cannot proceed without data'']
         | Some df \<Rightarrow>
             (let out = out @ [Log INFO ''Filtering for New York transit agencies...'']
              in case filter_new_york_data df of
                   Inl e \<Rightarrow> out @ [Uncaught e]
                 | Inr ny_df \<Rightarrow>
                     (let out = out @ [Log INFO (''Found '' @ str_nat (length ny_df)
                                                  @ '' incidents in New York'')];
                          fatal_df = prepare ny_df;
                          out = out @ prepare_fatal_events_log fatal_word ny_df fatal_df
                      in if length fatal_df = 0 then
                           out @ [Log ERROR (''No fatal incidents with coordinates found for '' @ place)]
                         else out @ report fatal_df)))"

definition main_deadly :: "(string \<Rightarrow> real option) \<Rightarrow> (frame \<Rightarrow> event list) \<Rightarrow> string + frame \<Rightarrow> event list" where
  "main_deadly pn report fetched =
     main_map ''Starting FTA Deadly Events Visualization...''
       (prepare_fatal_events_deadly pn) ''coordinates'' ''New York'' report fetched"

definition main_basemap :: "(string \<Rightarrow> real option) \<Rightarrow> (frame \<Rightarrow> event list) \<Rightarrow> string + frame \<Rightarrow> event list" where
  "main_basemap pn report fetched =
     main_map ''Starting FTA NYC Fatal Events Mapping...''
       (prepare_fatal_events_basemap pn) ''NYC coordinates'' ''NYC'' report fetched"

definition main_slider ::
  "(string \<Rightarrow> real option) \<Rightarrow> 'f datetime_parser \<Rightarrow> (frame \<Rightarrow> event list) \<Rightarrow> string + frame \<Rightarrow> event list" where
  "main_slider pn G report fetched =
     main_map ''Starting FTA NYC Fatal Events Time Slider Map...''
       (prepare_fatal_events_slider pn G) ''NYC coordinates and dates'' ''NYC'' report fetched"

section \<open>Example frames of the analysis script\<close>

text \<open>A frame with no column that names a place, and one whose only state is not New York.\<close>

definition example_table :: table where
  "example_table = \<lparr>col_names = [''event_type'', ''total_fatalities''],
     records = [\<lambda>c. if c = ''event_type'' then Str ''Suicide''
                    else if c = ''total_fatalities'' then Val 1 else Null]\<rparr>"

definition example_ca_table :: table where
  "example_ca_table = \<lparr>col_names = [''state''],
     records = [\<lambda>c. if c = ''state'' then Str ''CA'' else Null]\<rparr>"

section \<open>Agency filter: proofs\<close>

lemma select_mask_map: "select_mask df (map p df) = filter p df"
  by (induction df) (simp_all add: select_mask_def)

lemma starts_with_prefix: "starts_with n s = prefix n s"
  by (induction n s rule: starts_with.induct) simp_all

lemma str_in_sublist: "str_in n s = sublist n s"
proof (induction s)
  case Nil
  then show ?case by (cases n) simp_all
next
  case (Cons d ds)
  then show ?case by (simp add: starts_with_prefix sublist_Cons_right)
qed

lemma split_join_ny_keywords: "split_bar [] (join ''|'' ny_keywords) = ny_keywords"
  by (simp add: ny_keywords_def)

lemma regex_search_ny_keywords:
  "regex_search (join ''|'' ny_keywords) s = (\<exists>k. k \<in> set ny_keywords \<and> sublist k s)"
  unfolding regex_search_def split_join_ny_keywords
  by (auto simp: list_ex_iff str_in_sublist)

lemma agency_mask:
  "series_str_contains (join ''|'' ny_keywords) (series_str_upper (map agency df))
     = map agency_matches df"
  by (auto simp: series_str_contains_def series_str_upper_def agency_matches_def
      regex_search_ny_keywords split: option.splits)

text \<open>
  On a frame with a string in the agency column the filter returns exactly the rows,
  in order, whose agency name is not null and, upper-cased, contains a keyword.
\<close>

lemma filter_new_york_data_filter:
  assumes "list_ex (\<lambda>r. agency r \<noteq> None) df"
  shows "filter_new_york_data df = Inr (filter agency_matches df)"
proof -
  from assms have "df \<noteq> []" by auto
  with assms show ?thesis
    by (simp add: filter_new_york_data_def agency_mask select_mask_map)
qed

lemma filter_new_york_data_subseq:
  assumes "filter_new_york_data df = Inr ny"
  shows "ny = filter agency_matches df" "subseq ny df" "list_all (\<lambda>r. agency r \<noteq> None) ny"
proof -
  from assms show ny: "ny = filter agency_matches df"
    by (auto simp: filter_new_york_data_def agency_mask select_mask_map split: if_splits)
  show "subseq ny df" by (simp add: ny)
  show "list_all (\<lambda>r. agency r \<noteq> None) ny"
    by (auto simp: ny list_all_iff agency_matches_def)
qed

lemmas string_simps = str_upper_def upper_char_def lower_letters_def upper_letters_def

lemmas filter_simps = filter_new_york_data_def select_mask_def series_str_contains_def
  series_str_upper_def regex_search_def ny_keywords_def string_simps

text \<open>
  The agency names of the example rows, one of them in mixed case, and a null: the
  match is on the upper-cased name.
\<close>

lemma filter_new_york_data_example:
  "filter_new_york_data
     [(example_mta e)\<lparr>agency := Some ''Metropolitan Transportation Authority''\<rparr>,
      example_la e', (example_mta e)\<lparr>agency := None\<rparr>, example_mta e]
   = Inr [(example_mta e)\<lparr>agency := Some ''Metropolitan Transportation Authority''\<rparr>,
          example_mta e]"
  by (simp add: filter_simps example_mta_def example_la_def)

lemma filter_two_rows:
  "filter_new_york_data [example_mta e, example_la e'] = Inr [example_mta e]"
  by (simp add: filter_simps example_mta_def example_la_def)

text \<open>
  C5. The claim has every row with a null agency name excluded without an error. On a
  frame whose agency names are all null the code raises instead: \<open>pd.read_json\<close> reads
  the column as floats and \<open>.str\<close> fails on it, although \<open>na=False\<close> is there to make
  a null a non-match.
\<close>

theorem all_null_agency_raises:
  "filter_new_york_data [(example_mta None)\<lparr>agency := None\<rparr>, (example_la None)\<lparr>agency := None\<rparr>]
     = Inl AttributeError"
  by (simp add: filter_new_york_data_def example_mta_def example_la_def)

section \<open>prepare\_fatal\_events: proofs\<close>

lemmas parse_simps = parse_decimal_def parse_unsigned_def digit_of_def parse_iso_date_def
  days_in_month_def leap_year_def coerce_def notna_def cell_ge_def cell_le_def fatal_def

lemmas datetime_simps = to_datetime_def column_parser_def example_datetime_def parse_us_date_def

lemma notna_coerce: "notna (coerce p c) \<Longrightarrow> notna c"
  by (auto simp: notna_def coerce_def)

lemma prepare_deadly_canon:
  "prepare_fatal_events_deadly pn df =
     map (\<lambda>r. r\<lparr>latitude := coerce pn (latitude r), longitude := coerce pn (longitude r)\<rparr>)
       (filter (\<lambda>r. fatal r \<and> coerce pn (latitude r) \<noteq> Null \<and> coerce pn (longitude r) \<noteq> Null) df)"
  unfolding prepare_fatal_events_deadly_def Let_def
  apply (simp add: filter_map o_def)
  apply (rule arg_cong[where f="map _"])
  apply (rule filter_cong[OF refl])
  apply (auto simp: notna_def coerce_def)
  done

lemma prepare_basemap_canon:
  "prepare_fatal_events_basemap pn df =
     map (\<lambda>r. r\<lparr>latitude := coerce pn (latitude r), longitude := coerce pn (longitude r)\<rparr>)
       (filter (\<lambda>r. fatal r \<and> coerce pn (latitude r) \<noteq> Null \<and> coerce pn (longitude r) \<noteq> Null
          \<and> cell_ge (coerce pn (latitude r)) 40.4 \<and> cell_le (coerce pn (latitude r)) 41.0
          \<and> cell_ge (coerce pn (longitude r)) (-74.3) \<and> cell_le (coerce pn (longitude r)) (-73.7)) df)"
  unfolding prepare_fatal_events_basemap_def Let_def
  apply (simp add: filter_map o_def)
  apply (rule arg_cong[where f="map _"])
  apply (rule filter_cong[OF refl])
  apply (auto simp: notna_def coerce_def)
  done

text \<open>
  Storing a converted column back: each row gets its own cell, converted by the one
  parser that the column as a whole determines.
\<close>

lemma zip_map_same: "map (\<lambda>(r, d). h r d) (zip xs (map k xs)) = map (\<lambda>r. h r (k r)) xs"
  by (induction xs) simp_all

lemma assign_dates:
  assumes "map incident_date xs = col"
  shows "map (\<lambda>(r, d). h r d) (zip xs (to_datetime G col))
     = map (\<lambda>r. h r (coerce (column_parser G col) (incident_date r))) xs"
proof -
  have "to_datetime G col = map (\<lambda>r. coerce (column_parser G col) (incident_date r)) xs"
    by (simp add: to_datetime_def assms [symmetric] o_def)
  then show ?thesis by (simp only: zip_map_same)
qed

lemma prepare_slider_canon:
  "prepare_fatal_events_slider pn G df =
     map (\<lambda>r. r\<lparr>latitude := coerce pn (latitude r), longitude := coerce pn (longitude r),
                 incident_date :=
                   coerce (column_parser G (map incident_date
                      (filter (\<lambda>r. fatal r \<and> notna (latitude r) \<and> notna (longitude r)) df)))
                     (incident_date r)\<rparr>)
       (filter (\<lambda>r. fatal r \<and> coerce pn (latitude r) \<noteq> Null \<and> coerce pn (longitude r) \<noteq> Null
          \<and> coerce (column_parser G (map incident_date
                (filter (\<lambda>r. fatal r \<and> notna (latitude r) \<and> notna (longitude r)) df)))
               (incident_date r) \<noteq> Null
          \<and> cell_ge (coerce pn (latitude r)) 40.4 \<and> cell_le (coerce pn (latitude r)) 41.0
          \<and> cell_ge (coerce pn (longitude r)) (-74.3) \<and> cell_le (coerce pn (longitude r)) (-73.7)) df)"
proof -
  let ?pre = "\<lambda>r. fatal r \<and> notna (latitude r) \<and> notna (longitude r)"
  let ?conv = "\<lambda>r::safety_event. r\<lparr>latitude := coerce pn (latitude r), longitude := coerce pn (longitude r)\<rparr>"
  let ?p = "column_parser G (map incident_date (filter ?pre df))"
  have col: "map incident_date (map ?conv (filter ?pre df)) = map incident_date (filter ?pre df)"
    by (simp add: o_def)
  have "prepare_fatal_events_slider pn G df =
      filter (\<lambda>r. notna (latitude r) \<and> notna (longitude r) \<and> notna (incident_date r) \<and>
                 cell_ge (latitude r) 40.4 \<and> cell_le (latitude r) 41.0 \<and>
                 cell_ge (longitude r) (-74.3) \<and> cell_le (longitude r) (-73.7))
        (map (\<lambda>(r, d). r\<lparr>incident_date := d\<rparr>)
           (zip (map ?conv (filter ?pre df))
                (to_datetime G (map incident_date (map ?conv (filter ?pre df))))))"
    by (simp add: prepare_fatal_events_slider_def Let_def o_def)
  also have "map (\<lambda>(r, d). r\<lparr>incident_date := d\<rparr>)
           (zip (map ?conv (filter ?pre df))
                (to_datetime G (map incident_date (map ?conv (filter ?pre df)))))
      = map (\<lambda>r. r\<lparr>incident_date := coerce ?p (incident_date r)\<rparr>) (map ?conv (filter ?pre df))"
    unfolding col by (rule assign_dates) (rule col)
  finally have "prepare_fatal_events_slider pn G df =
      filter (\<lambda>r. notna (latitude r) \<and> notna (longitude r) \<and> notna (incident_date r) \<and>
                 cell_ge (latitude r) 40.4 \<and> cell_le (latitude r) 41.0 \<and>
                 cell_ge (longitude r) (-74.3) \<and> cell_le (longitude r) (-73.7))
        (map (\<lambda>r. r\<lparr>incident_date := coerce ?p (incident_date r)\<rparr>) (map ?conv (filter ?pre df)))" .
  also have "\<dots> = map (\<lambda>r. r\<lparr>latitude := coerce pn (latitude r), longitude := coerce pn (longitude r),
                 incident_date := coerce ?p (incident_date r)\<rparr>)
       (filter (\<lambda>r. fatal r \<and> coerce pn (latitude r) \<noteq> Null \<and> coerce pn (longitude r) \<noteq> Null
          \<and> coerce ?p (incident_date r) \<noteq> Null
          \<and> cell_ge (coerce pn (latitude r)) 40.4 \<and> cell_le (coerce pn (latitude r)) 41.0
          \<and> cell_ge (coerce pn (longitude r)) (-74.3) \<and> cell_le (coerce pn (longitude r)) (-73.7)) df)"
    apply (simp add: filter_map o_def)
    apply (rule arg_cong[where f="map _"])
    apply (rule filter_cong[OF refl])
    apply (auto simp: notna_def coerce_def)
    done
  finally show ?thesis .
qed

lemma never_parses_coerce:
  assumes "never_parses G c"
  shows "coerce (column_parser G col) c = Null"
proof (cases c)
  case Null
  then show ?thesis by (simp add: coerce_def)
next
  case (Val d)
  with assms show ?thesis by (simp add: never_parses_def)
next
  case (Str s)
  with assms have "\<And>f. strptime G f s = None" and "parse_dateutil G s = None"
    by (simp_all add: never_parses_def)
  then have "column_parser G col s = None"
    by (simp add: column_parser_def split: option.splits cell.splits)
  with Str show ?thesis by (simp add: coerce_def)
qed

lemma stems_from_map:
  "list_all2 (stems_from pn)
     (map (\<lambda>r. r\<lparr>latitude := coerce pn (latitude r), longitude := coerce pn (longitude r),
                  incident_date := k r\<rparr>) zs) zs"
  by (induction zs) (auto simp: stems_from_def)

lemma slider_row_dropped:
  assumes "coerce pn (latitude r) = Null \<or> coerce pn (longitude r) = Null
           \<or> never_parses G (incident_date r)"
  shows "\<exists>xs' ys'. subseq xs' xs \<and> subseq ys' ys \<and>
           list_all2 (stems_from pn) (prepare_fatal_events_slider pn G (xs @ r # ys)) (xs' @ ys')"
proof -
  let ?p = "column_parser G (map incident_date
      (filter (\<lambda>r. fatal r \<and> notna (latitude r) \<and> notna (longitude r)) (xs @ r # ys)))"
  let ?K = "\<lambda>r. fatal r \<and> coerce pn (latitude r) \<noteq> Null \<and> coerce pn (longitude r) \<noteq> Null
          \<and> coerce ?p (incident_date r) \<noteq> Null
          \<and> cell_ge (coerce pn (latitude r)) 40.4 \<and> cell_le (coerce pn (latitude r)) 41.0
          \<and> cell_ge (coerce pn (longitude r)) (-74.3) \<and> cell_le (coerce pn (longitude r)) (-73.7)"
  let ?N = "\<lambda>r::safety_event. r\<lparr>latitude := coerce pn (latitude r), longitude := coerce pn (longitude r),
                 incident_date := coerce ?p (incident_date r)\<rparr>"
  from assms have "\<not> ?K r" using never_parses_coerce [of G "incident_date r"] by auto
  then have kept: "filter ?K (xs @ r # ys) = filter ?K xs @ filter ?K ys" by simp
  have "prepare_fatal_events_slider pn G (xs @ r # ys) = map ?N (filter ?K (xs @ r # ys))"
    by (rule prepare_slider_canon)
  also have "\<dots> = map ?N (filter ?K xs @ filter ?K ys)" by (simp only: kept)
  finally have "list_all2 (stems_from pn) (prepare_fatal_events_slider pn G (xs @ r # ys))
      (filter ?K xs @ filter ?K ys)"
    by (simp only: stems_from_map)
  moreover have "subseq (filter ?K xs) xs" "subseq (filter ?K ys) ys" by simp_all
  ultimately show ?thesis by blast
qed

text \<open>
  C7. A row whose latitude or longitude does not parse, or is null, is dropped. In
  \<open>fta_deadly_events_map.py\<close> and \<open>fta_nyc_basemap.py\<close> the frame with the row gives
  what the frame without it gives. In \<open>fta_nyc_time_slider_map.py\<close>, where also a row
  whose incident date no format reads is dropped, every row of the result stems from
  a row before or after the dropped one, in order. This holds whatever the row's other
  fields and the other rows are; \<open>prepare_fatal_events\<close> has no failing branch.
\<close>

theorem unparsable_row_dropped:
  "(coerce pn (latitude r) = Null \<or> coerce pn (longitude r) = Null \<longrightarrow>
      prepare_fatal_events_deadly pn (xs @ r # ys) = prepare_fatal_events_deadly pn (xs @ ys)
    \<and> prepare_fatal_events_basemap pn (xs @ r # ys) = prepare_fatal_events_basemap pn (xs @ ys))
   \<and> (coerce pn (latitude r) = Null \<or> coerce pn (longitude r) = Null
        \<or> never_parses G (incident_date r) \<longrightarrow>
      (\<exists>xs' ys'. subseq xs' xs \<and> subseq ys' ys \<and>
         list_all2 (stems_from pn) (prepare_fatal_events_slider pn G (xs @ r # ys)) (xs' @ ys')))"
proof (intro conjI impI)
  assume "coerce pn (latitude r) = Null \<or> coerce pn (longitude r) = Null"
  then show "prepare_fatal_events_deadly pn (xs @ r # ys) = prepare_fatal_events_deadly pn (xs @ ys)"
    by (auto simp: prepare_deadly_canon)
next
  assume "coerce pn (latitude r) = Null \<or> coerce pn (longitude r) = Null"
  then show "prepare_fatal_events_basemap pn (xs @ r # ys) = prepare_fatal_events_basemap pn (xs @ ys)"
    by (auto simp: prepare_basemap_canon)
next
  assume "coerce pn (latitude r) = Null \<or> coerce pn (longitude r) = Null
        \<or> never_parses G (incident_date r)"
  then show "\<exists>xs' ys'. subseq xs' xs \<and> subseq ys' ys \<and>
         list_all2 (stems_from pn) (prepare_fatal_events_slider pn G (xs @ r # ys)) (xs' @ ys')"
    by (rule slider_row_dropped)
qed

text \<open>
  The row with latitude \<open>abc\<close>, and in the time-slider script the row with date \<open>abc\<close>,
  between the two example rows.
\<close>

theorem unparsable_row_dropped_witness:
  "coerce parse_decimal (latitude ((example_mta None)\<lparr>latitude := Str ''abc''\<rparr>)) = Null
   \<and> prepare_fatal_events_deadly parse_decimal
        ([example_mta None] @ (example_mta None)\<lparr>latitude := Str ''abc''\<rparr> # [example_la None])
      = prepare_fatal_events_deadly parse_decimal ([example_mta None] @ [example_la None])
   \<and> prepare_fatal_events_basemap parse_decimal
        ([example_mta None] @ (example_mta None)\<lparr>latitude := Str ''abc''\<rparr> # [example_la None])
      = prepare_fatal_events_basemap parse_decimal ([example_mta None] @ [example_la None])
   \<and> never_parses example_datetime (incident_date ((example_mta None)\<lparr>incident_date := Str ''abc''\<rparr>))
   \<and> (\<exists>xs' ys'. subseq xs' [example_mta None] \<and> subseq ys' [example_la None] \<and>
         list_all2 (stems_from parse_decimal)
           (prepare_fatal_events_slider parse_decimal example_datetime
              ([example_mta None] @ (example_mta None)\<lparr>incident_date := Str ''abc''\<rparr> # [example_la None]))
           (xs' @ ys'))"
proof -
  have lat: "coerce parse_decimal (latitude ((example_mta None)\<lparr>latitude := Str ''abc''\<rparr>)) = Null"
    by (simp add: example_mta_def parse_simps)
  have "strptime example_datetime f ''abc'' = None" for f
    by (cases f) (simp_all add: example_datetime_def parse_iso_date_def parse_us_date_def)
  then have day: "never_parses example_datetime (incident_date ((example_mta None)\<lparr>incident_date := Str ''abc''\<rparr>))"
    by (simp add: never_parses_def example_datetime_def parse_iso_date_def parse_us_date_def)
  from unparsable_row_dropped [of parse_decimal "(example_mta None)\<lparr>latitude := Str ''abc''\<rparr>"
        "[example_mta None]" "[example_la None]" example_datetime] lat
  have 1: "prepare_fatal_events_deadly parse_decimal
        ([example_mta None] @ (example_mta None)\<lparr>latitude := Str ''abc''\<rparr> # [example_la None])
      = prepare_fatal_events_deadly parse_decimal ([example_mta None] @ [example_la None])"
    and 2: "prepare_fatal_events_basemap parse_decimal
        ([example_mta None] @ (example_mta None)\<lparr>latitude := Str ''abc''\<rparr> # [example_la None])
      = prepare_fatal_events_basemap parse_decimal ([example_mta None] @ [example_la None])"
    by blast+
  from unparsable_row_dropped [of parse_decimal "(example_mta None)\<lparr>incident_date := Str ''abc''\<rparr>"
        "[example_mta None]" "[example_la None]" example_datetime] day
  have 3: "\<exists>xs' ys'. subseq xs' [example_mta None] \<and> subseq ys' [example_la None] \<and>
         list_all2 (stems_from parse_decimal)
           (prepare_fatal_events_slider parse_decimal example_datetime
              ([example_mta None] @ (example_mta None)\<lparr>incident_date := Str ''abc''\<rparr> # [example_la None]))
           (xs' @ ys')"
    by blast
  from lat 1 2 day 3 show ?thesis by (intro conjI)
qed

lemma coerce_Val: "coerce p c \<noteq> Null \<Longrightarrow> \<exists>x. coerce p c = Val x"
  by (simp add: coerce_def split: cell.splits option.splits)

lemma in_prepare_deadly:
  assumes "r \<in> set (prepare_fatal_events_deadly pn df)"
  shows "\<exists>x y. latitude r = Val x \<and> longitude r = Val y"
proof -
  from assms obtain r0 where r: "r = r0\<lparr>latitude := coerce pn (latitude r0), longitude := coerce pn (longitude r0)\<rparr>"
    and lat: "coerce pn (latitude r0) \<noteq> Null" and lon: "coerce pn (longitude r0) \<noteq> Null"
    unfolding prepare_deadly_canon by auto
  from coerce_Val[OF lat] coerce_Val[OF lon] r show ?thesis by auto
qed

lemma cell_bounds: "cell_ge c lo \<Longrightarrow> cell_le c hi \<Longrightarrow> \<exists>x. c = Val x \<and> lo \<le> x \<and> x \<le> hi"
  by (cases c) (simp_all add: cell_ge_def cell_le_def)

lemma in_prepare_basemap:
  assumes "r \<in> set (prepare_fatal_events_basemap pn df)"
  shows "\<exists>x y. latitude r = Val x \<and> longitude r = Val y
        \<and> 40.4 \<le> x \<and> x \<le> 41.0 \<and> -74.3 \<le> y \<and> y \<le> -73.7"
proof -
  from assms obtain r0 where r: "r = r0\<lparr>latitude := coerce pn (latitude r0), longitude := coerce pn (longitude r0)\<rparr>"
    and lat: "cell_ge (coerce pn (latitude r0)) 40.4" "cell_le (coerce pn (latitude r0)) 41.0"
    and lon: "cell_ge (coerce pn (longitude r0)) (-74.3)" "cell_le (coerce pn (longitude r0)) (-73.7)"
    unfolding prepare_basemap_canon by auto
  from cell_bounds[OF lat] cell_bounds[OF lon] r show ?thesis by auto
qed

lemma in_prepare_slider:
  assumes "r \<in> set (prepare_fatal_events_slider pn G df)"
  shows "\<exists>x y. latitude r = Val x \<and> longitude r = Val y
        \<and> 40.4 \<le> x \<and> x \<le> 41.0 \<and> -74.3 \<le> y \<and> y \<le> -73.7"
proof -
  from assms obtain r0 d where r: "r = r0\<lparr>latitude := coerce pn (latitude r0), longitude := coerce pn (longitude r0),
       incident_date := d\<rparr>"
    and lat: "cell_ge (coerce pn (latitude r0)) 40.4" "cell_le (coerce pn (latitude r0)) 41.0"
    and lon: "cell_ge (coerce pn (longitude r0)) (-74.3)" "cell_le (coerce pn (longitude r0)) (-73.7)"
    unfolding prepare_slider_canon by auto
  from cell_bounds[OF lat] cell_bounds[OF lon] r show ?thesis by auto
qed

lemma prepare_basemap_example:
  "prepare_fatal_events_basemap parse_decimal [example_mta e, example_la e'] =
    [(example_mta e)\<lparr>latitude := Val 40.75, longitude := Val (-73.98)\<rparr>]"
  by (simp add: prepare_fatal_events_basemap_def Let_def example_mta_def example_la_def parse_simps)

lemma example_dates_column:
  "column_parser example_datetime (Str ''2019-03-01'' # col) = parse_iso_date"
  by (simp add: column_parser_def example_datetime_def parse_iso_date_def digit_of_def
      days_in_month_def)

lemma prepare_slider_example:
  "prepare_fatal_events_slider parse_decimal example_datetime [example_mta e, example_la e'] =
    [(example_mta e)\<lparr>latitude := Val 40.75, longitude := Val (-73.98),
       incident_date := Val \<lparr>year = 2019, month = 3, day = 1\<rparr>\<rparr>]"
proof -
  have col: "column_parser example_datetime (map incident_date
      (filter (\<lambda>r. fatal r \<and> notna (latitude r) \<and> notna (longitude r)) [example_mta e, example_la e']))
    = parse_iso_date"
    by (simp add: example_mta_def example_la_def fatal_def notna_def example_dates_column)
  show ?thesis
    unfolding prepare_slider_canon col
    by (simp add: example_mta_def example_la_def parse_simps)
qed

text \<open>
  In the time-slider script a dropped row can still decide about the others: a row with
  an unreadable latitude and a date written month first, in front of the first example
  row, fixes the format of the column, and the example row's date no longer parses.
\<close>

lemma slider_first_date_fixes_format:
  "prepare_fatal_events_slider parse_decimal example_datetime
     [(example_mta None)\<lparr>latitude := Str ''abc'', incident_date := Str ''03/01/2019''\<rparr>,
      example_mta None] = []
   \<and> prepare_fatal_events_slider parse_decimal example_datetime [example_mta None]
     = [(example_mta None)\<lparr>latitude := Val 40.75, longitude := Val (-73.98),
          incident_date := Val \<lparr>year = 2019, month = 3, day = 1\<rparr>\<rparr>]"
proof -
  let ?df = "[(example_mta None)\<lparr>latitude := Str ''abc'', incident_date := Str ''03/01/2019''\<rparr>,
      example_mta None]"
  have us: "column_parser example_datetime (map incident_date
      (filter (\<lambda>r. fatal r \<and> notna (latitude r) \<and> notna (longitude r)) ?df)) = parse_us_date"
    by (simp add: example_mta_def fatal_def notna_def column_parser_def example_datetime_def
        parse_iso_date_def parse_us_date_def digit_of_def days_in_month_def)
  have iso: "column_parser example_datetime (map incident_date
      (filter (\<lambda>r. fatal r \<and> notna (latitude r) \<and> notna (longitude r)) [example_mta None]))
    = parse_iso_date"
    by (simp add: example_mta_def fatal_def notna_def example_dates_column)
  have 1: "prepare_fatal_events_slider parse_decimal example_datetime ?df = []"
    unfolding prepare_slider_canon us
    by (simp add: example_mta_def parse_simps parse_us_date_def)
  have 2: "prepare_fatal_events_slider parse_decimal example_datetime [example_mta None]
     = [(example_mta None)\<lparr>latitude := Val 40.75, longitude := Val (-73.98),
          incident_date := Val \<lparr>year = 2019, month = 3, day = 1\<rparr>\<rparr>]"
    unfolding prepare_slider_canon iso
    by (simp add: example_mta_def parse_simps)
  from 1 2 show ?thesis by (rule conjI)
qed

text \<open>
  C1, as amended. Every row that \<open>prepare_fatal_events\<close> returns has numeric
  coordinates. In \<open>fta_nyc_basemap.py\<close> and \<open>fta_nyc_time_slider_map.py\<close> they lie in
  the New York box, hence on the globe; \<open>fta_deadly_events_map.py\<close> checks no range.
\<close>

theorem prepare_coordinates_valid:
  "(\<forall>r \<in> set (prepare_fatal_events_deadly pn df).
      \<exists>x y. latitude r = Val x \<and> longitude r = Val y)
   \<and> (\<forall>r \<in> set (prepare_fatal_events_basemap pn df) \<union> set (prepare_fatal_events_slider pn G df).
      \<exists>x y. latitude r = Val x \<and> longitude r = Val y
        \<and> 40.4 \<le> x \<and> x \<le> 41.0 \<and> -74.3 \<le> y \<and> y \<le> -73.7
        \<and> -90 \<le> x \<and> x \<le> 90 \<and> -180 \<le> y \<and> y \<le> 180)"
proof (intro conjI ballI)
  fix r assume "r \<in> set (prepare_fatal_events_deadly pn df)"
  then show "\<exists>x y. latitude r = Val x \<and> longitude r = Val y" by (rule in_prepare_deadly)
next
  fix r assume "r \<in> set (prepare_fatal_events_basemap pn df) \<union> set (prepare_fatal_events_slider pn G df)"
  then obtain x y where "latitude r = Val x" "longitude r = Val y"
      "40.4 \<le> x" "x \<le> 41.0" "-74.3 \<le> y" "y \<le> -73.7"
    using in_prepare_basemap in_prepare_slider by blast
  then show "\<exists>x y. latitude r = Val x \<and> longitude r = Val y
        \<and> 40.4 \<le> x \<and> x \<le> 41.0 \<and> -74.3 \<le> y \<and> y \<le> -73.7
        \<and> -90 \<le> x \<and> x \<le> 90 \<and> -180 \<le> y \<and> y \<le> 180"
    by (intro exI[of _ x] exI[of _ y]) simp
qed

theorem prepare_coordinates_valid_witness:
  "\<exists>x y. latitude ((example_mta None)\<lparr>latitude := Val 40.75, longitude := Val (-73.98)\<rparr>) = Val x
      \<and> longitude ((example_mta None)\<lparr>latitude := Val 40.75, longitude := Val (-73.98)\<rparr>) = Val y
      \<and> 40.4 \<le> x \<and> x \<le> 41.0 \<and> -74.3 \<le> y \<and> y \<le> -73.7
      \<and> -90 \<le> x \<and> x \<le> 90 \<and> -180 \<le> y \<and> y \<le> 180"
proof -
  have "(example_mta None)\<lparr>latitude := Val 40.75, longitude := Val (-73.98)\<rparr>
      \<in> set (prepare_fatal_events_basemap parse_decimal [example_mta None, example_la None])
        \<union> set (prepare_fatal_events_slider parse_decimal example_datetime [example_mta None, example_la None])"
    by (simp add: prepare_basemap_example)
  with prepare_coordinates_valid [of parse_decimal "[example_mta None, example_la None]" example_datetime]
  show ?thesis by blast
qed

text \<open>
  \<open>fta_deadly_events_map.py\<close> keeps a fatal row at latitude 95, longitude 200.
\<close>

theorem deadly_map_keeps_out_of_range:
  "prepare_fatal_events_deadly parse_decimal [example_far] =
     [example_far\<lparr>latitude := Val 95, longitude := Val 200\<rparr>]
   \<and> \<not> (95 :: real) \<le> 90 \<and> \<not> (200 :: real) \<le> 180"
  by (simp add: prepare_fatal_events_deadly_def Let_def example_far_def parse_simps)

section \<open>Order of the fatality filter\<close>

lemma fatal_spec: "fatal r = (\<exists>n. total_fatalities r = Some n \<and> 0 < n)"
  by (simp add: fatal_def split: option.splits)

lemma map_filter_eqI:
  assumes "\<And>r. r \<in> set xs \<Longrightarrow> P r = Q r" and "\<And>r. r \<in> set xs \<Longrightarrow> P r \<Longrightarrow> f r = g r"
  shows "map f (filter P xs) = map g (filter Q xs)"
  using assms by (induction xs) auto

lemma spec_normalizer_parsed:
  "spec_event_normalizer cfg pn G df =
     filter (inside_box (bounding_box cfg))
       (filter (\<lambda>r. notna (latitude r) \<and> notna (longitude r) \<and>
                    (if date_required cfg then notna (incident_date r) else True))
          (map (\<lambda>r. r\<lparr>latitude := coerce pn (latitude r), longitude := coerce pn (longitude r),
                       incident_date := coerce (column_parser G (map incident_date df)) (incident_date r)\<rparr>)
             df))"
  unfolding spec_event_normalizer_def Let_def
  by (simp only: assign_dates [OF refl])

lemma spec_deadly_canon:
  "spec_fatality_selector (spec_event_normalizer deadly_config pn G df) =
     map (\<lambda>r. r\<lparr>latitude := coerce pn (latitude r), longitude := coerce pn (longitude r),
                 incident_date := coerce (column_parser G (map incident_date df)) (incident_date r)\<rparr>)
       (filter (\<lambda>r. fatal r \<and> coerce pn (latitude r) \<noteq> Null \<and> coerce pn (longitude r) \<noteq> Null) df)"
  unfolding spec_normalizer_parsed spec_fatality_selector_def deadly_config_def inside_box_def
    fatal_spec [symmetric]
  apply (simp add: filter_map o_def)
  apply (rule map_filter_eqI)
   apply (auto simp: fatal_def notna_def)
  done

lemma spec_basemap_canon:
  "spec_fatality_selector (spec_event_normalizer basemap_config pn G df) =
     map (\<lambda>r. r\<lparr>latitude := coerce pn (latitude r), longitude := coerce pn (longitude r),
                 incident_date := coerce (column_parser G (map incident_date df)) (incident_date r)\<rparr>)
       (filter (\<lambda>r. fatal r \<and> coerce pn (latitude r) \<noteq> Null \<and> coerce pn (longitude r) \<noteq> Null
          \<and> cell_ge (coerce pn (latitude r)) 40.4 \<and> cell_le (coerce pn (latitude r)) 41.0
          \<and> cell_ge (coerce pn (longitude r)) (-74.3) \<and> cell_le (coerce pn (longitude r)) (-73.7)) df)"
  unfolding spec_normalizer_parsed spec_fatality_selector_def basemap_config_def inside_box_def
    nyc_box_def fatal_spec [symmetric]
  apply (simp add: filter_map o_def)
  apply (rule map_filter_eqI)
   apply (auto simp: fatal_def notna_def)
  done

lemma spec_slider_canon:
  "spec_fatality_selector (spec_event_normalizer slider_config pn G df) =
     map (\<lambda>r. r\<lparr>latitude := coerce pn (latitude r), longitude := coerce pn (longitude r),
                 incident_date := coerce (column_parser G (map incident_date df)) (incident_date r)\<rparr>)
       (filter (\<lambda>r. fatal r \<and> coerce pn (latitude r) \<noteq> Null \<and> coerce pn (longitude r) \<noteq> Null
          \<and> coerce (column_parser G (map incident_date df)) (incident_date r) \<noteq> Null
          \<and> cell_ge (coerce pn (latitude r)) 40.4 \<and> cell_le (coerce pn (latitude r)) 41.0
          \<and> cell_ge (coerce pn (longitude r)) (-74.3) \<and> cell_le (coerce pn (longitude r)) (-73.7)) df)"
  unfolding spec_normalizer_parsed spec_fatality_selector_def slider_config_def inside_box_def
    nyc_box_def fatal_spec [symmetric]
  apply (simp add: filter_map o_def)
  apply (rule map_filter_eqI)
   apply (auto simp: fatal_def notna_def)
  done

text \<open>
  C9, as amended. In \<open>fta_deadly_events_map.py\<close> and \<open>fta_nyc_basemap.py\<close>, filtering
  on \<open>total_fatalities > 0\<close> first, as \<open>prepare_fatal_events\<close> does, keeps the same rows
  of the frame as the specification's order, the Event Normalizer on the whole frame
  and then the Fatality Selector; the normalizer also converts the date cell of the
  rows it keeps. In \<open>fta_nyc_time_slider_map.py\<close> the two orders return the same frame
  when \<open>pd.to_datetime\<close> settles on the same parser for the date column after the
  first two filters as for the date column of the whole frame.
\<close>

theorem fatality_filter_order:
  "prepare_fatal_events_deadly pn df =
     map (\<lambda>r. r\<lparr>latitude := coerce pn (latitude r), longitude := coerce pn (longitude r)\<rparr>)
       (filter (\<lambda>r. fatal r \<and> coerce pn (latitude r) \<noteq> Null \<and> coerce pn (longitude r) \<noteq> Null) df)
   \<and> spec_fatality_selector (spec_event_normalizer deadly_config pn G df) =
     map (\<lambda>r. r\<lparr>latitude := coerce pn (latitude r), longitude := coerce pn (longitude r),
                 incident_date := coerce (column_parser G (map incident_date df)) (incident_date r)\<rparr>)
       (filter (\<lambda>r. fatal r \<and> coerce pn (latitude r) \<noteq> Null \<and> coerce pn (longitude r) \<noteq> Null) df)
   \<and> prepare_fatal_events_basemap pn df =
     map (\<lambda>r. r\<lparr>latitude := coerce pn (latitude r), longitude := coerce pn (longitude r)\<rparr>)
       (filter (\<lambda>r. fatal r \<and> coerce pn (latitude r) \<noteq> Null \<and> coerce pn (longitude r) \<noteq> Null
          \<and> cell_ge (coerce pn (latitude r)) 40.4 \<and> cell_le (coerce pn (latitude r)) 41.0
          \<and> cell_ge (coerce pn (longitude r)) (-74.3) \<and> cell_le (coerce pn (longitude r)) (-73.7)) df)
   \<and> spec_fatality_selector (spec_event_normalizer basemap_config pn G df) =
     map (\<lambda>r. r\<lparr>latitude := coerce pn (latitude r), longitude := coerce pn (longitude r),
                 incident_date := coerce (column_parser G (map incident_date df)) (incident_date r)\<rparr>)
       (filter (\<lambda>r. fatal r \<and> coerce pn (latitude r) \<noteq> Null \<and> coerce pn (longitude r) \<noteq> Null
          \<and> cell_ge (coerce pn (latitude r)) 40.4 \<and> cell_le (coerce pn (latitude r)) 41.0
          \<and> cell_ge (coerce pn (longitude r)) (-74.3) \<and> cell_le (coerce pn (longitude r)) (-73.7)) df)
   \<and> (column_parser G (map incident_date
          (filter (\<lambda>r. fatal r \<and> notna (latitude r) \<and> notna (longitude r)) df))
        = column_parser G (map incident_date df) \<longrightarrow>
      prepare_fatal_events_slider pn G df =
        spec_fatality_selector (spec_event_normalizer slider_config pn G df))"
proof (intro conjI impI)
  assume "column_parser G (map incident_date
          (filter (\<lambda>r. fatal r \<and> notna (latitude r) \<and> notna (longitude r)) df))
        = column_parser G (map incident_date df)"
  then show "prepare_fatal_events_slider pn G df =
        spec_fatality_selector (spec_event_normalizer slider_config pn G df)"
    by (simp only: prepare_slider_canon spec_slider_canon)
qed (rule prepare_deadly_canon spec_deadly_canon prepare_basemap_canon spec_basemap_canon)+

lemma prepare_slider_example_order:
  "column_parser example_datetime (map incident_date
          (filter (\<lambda>r. fatal r \<and> notna (latitude r) \<and> notna (longitude r))
             [example_mta None, example_la None]))
        = column_parser example_datetime (map incident_date [example_mta None, example_la None])"
  by (simp add: example_mta_def example_la_def fatal_def notna_def)

text \<open>The two example rows: both dates are written year first.\<close>

theorem fatality_filter_order_witness:
  "prepare_fatal_events_slider parse_decimal example_datetime [example_mta None, example_la None] =
     spec_fatality_selector (spec_event_normalizer slider_config parse_decimal example_datetime
        [example_mta None, example_la None])"
  using fatality_filter_order [of parse_decimal "[example_mta None, example_la None]" example_datetime]
    prepare_slider_example_order
  by blast

text \<open>
  A row without a fatality whose date is written month first, before a fatal row whose
  date is written year first. The script drops the first row before it converts the
  dates and keeps the second. In the specification's order the first row fixes the
  format, the date of the second does not parse, and nothing is left.
\<close>

theorem date_format_depends_on_order:
  "prepare_fatal_events_slider parse_decimal example_datetime
     [(example_mta None)\<lparr>total_fatalities := Some 0, incident_date := Str ''03/01/2019''\<rparr>,
      example_mta None]
   = [(example_mta None)\<lparr>latitude := Val 40.75, longitude := Val (-73.98),
        incident_date := Val \<lparr>year = 2019, month = 3, day = 1\<rparr>\<rparr>]
   \<and> spec_fatality_selector (spec_event_normalizer slider_config parse_decimal example_datetime
     [(example_mta None)\<lparr>total_fatalities := Some 0, incident_date := Str ''03/01/2019''\<rparr>,
      example_mta None])
   = []"
proof -
  let ?df = "[(example_mta None)\<lparr>total_fatalities := Some 0, incident_date := Str ''03/01/2019''\<rparr>,
      example_mta None]"
  have code: "column_parser example_datetime (map incident_date
      (filter (\<lambda>r. fatal r \<and> notna (latitude r) \<and> notna (longitude r)) ?df)) = parse_iso_date"
    by (simp add: example_mta_def fatal_def notna_def example_dates_column)
  have spec: "column_parser example_datetime (map incident_date ?df) = parse_us_date"
    by (simp add: example_mta_def column_parser_def example_datetime_def parse_iso_date_def
        parse_us_date_def digit_of_def days_in_month_def)
  have 1: "prepare_fatal_events_slider parse_decimal example_datetime ?df
      = [(example_mta None)\<lparr>latitude := Val 40.75, longitude := Val (-73.98),
        incident_date := Val \<lparr>year = 2019, month = 3, day = 1\<rparr>\<rparr>]"
    unfolding prepare_slider_canon code
    by (simp add: example_mta_def parse_simps)
  have 2: "spec_fatality_selector (spec_event_normalizer slider_config parse_decimal example_datetime ?df) = []"
    unfolding spec_slider_canon spec
    by (simp add: example_mta_def parse_simps parse_us_date_def)
  from 1 2 show ?thesis by (rule conjI)
qed

section \<open>Aggregation: proofs\<close>

lemma set_map_filter_key:
  "set (List.map_filter key rows) = {k. \<exists>r \<in> set rows. key r = Some k}"
  by (induction rows) (auto simp: List.map_filter_def)

lemma groupby_keys:
  "map fst (groupby key rows) = sort (remdups (List.map_filter key rows))"
  by (simp add: groupby_def o_def)

lemma groupby_distinct: "distinct (map fst (groupby key rows))"
  by (simp add: groupby_keys)

lemma groupby_sorted: "sorted (map fst (groupby key rows))"
  by (simp add: groupby_keys)

lemma groupby_key_set:
  "set (map fst (groupby key rows)) = {k. \<exists>r \<in> set rows. key r = Some k}"
  by (simp add: groupby_keys set_map_filter_key)

lemma groupby_member:
  "g \<in> set (groupby key rows) \<Longrightarrow>
     snd g = filter (\<lambda>r. key r = Some (fst g)) rows \<and> (\<exists>r \<in> set rows. key r = Some (fst g))"
  by (auto simp: groupby_def set_map_filter_key)

lemma groupby_nonempty: "g \<in> set (groupby key rows) \<Longrightarrow> snd g \<noteq> []"
  by (drule groupby_member) (auto simp: filter_empty_conv)

lemma sum_list_delta:
  "distinct ks \<Longrightarrow> (\<Sum>k\<leftarrow>ks. if a = Some k then c else 0) = (if a \<in> Some ` set ks then c else (0::int))"
  by (induction ks) auto

lemma sum_groups:
  fixes f :: "'r \<Rightarrow> int"
  assumes "distinct ks" and "\<And>r k. r \<in> set rows \<Longrightarrow> key r = Some k \<Longrightarrow> k \<in> set ks"
  shows "(\<Sum>k\<leftarrow>ks. \<Sum>r\<leftarrow>filter (\<lambda>r. key r = Some k) rows. f r)
         = (\<Sum>r\<leftarrow>filter (\<lambda>r. key r \<noteq> None) rows. f r)"
  using assms(2)
proof (induction rows)
  case Nil
  then show ?case by simp
next
  case (Cons r rows)
  have split: "(\<Sum>k\<leftarrow>ks. \<Sum>r'\<leftarrow>filter (\<lambda>r. key r = Some k) (r # rows). f r')
      = (\<Sum>k\<leftarrow>ks. if key r = Some k then f r else 0)
        + (\<Sum>k\<leftarrow>ks. \<Sum>r'\<leftarrow>filter (\<lambda>r. key r = Some k) rows. f r')"
  proof -
    have "(\<Sum>k\<leftarrow>ks. \<Sum>r'\<leftarrow>filter (\<lambda>r. key r = Some k) (r # rows). f r')
      = (\<Sum>k\<leftarrow>ks. (if key r = Some k then f r else 0)
           + (\<Sum>r'\<leftarrow>filter (\<lambda>r. key r = Some k) rows. f r'))"
      by (rule arg_cong [where f = sum_list], rule map_cong [OF refl]) simp
    then show ?thesis by (simp add: sum_list_addf)
  qed
  have here: "(\<Sum>k\<leftarrow>ks. if key r = Some k then f r else 0) = (if key r \<noteq> None then f r else 0)"
    using Cons.prems [of r] by (auto simp: sum_list_delta [OF assms(1)])
  have rest: "(\<Sum>k\<leftarrow>ks. \<Sum>r'\<leftarrow>filter (\<lambda>r. key r = Some k) rows. f r')
      = (\<Sum>r\<leftarrow>filter (\<lambda>r. key r \<noteq> None) rows. f r)"
    using Cons.prems by (intro Cons.IH) auto
  show ?case unfolding split here rest by simp
qed

lemma groupby_sum:
  fixes f :: "'r \<Rightarrow> int"
  shows "(\<Sum>g\<leftarrow>groupby key rows. \<Sum>r\<leftarrow>snd g. f r) = (\<Sum>r\<leftarrow>filter (\<lambda>r. key r \<noteq> None) rows. f r)"
proof -
  let ?ks = "sort (remdups (List.map_filter key rows))"
  have "(\<Sum>g\<leftarrow>groupby key rows. \<Sum>r\<leftarrow>snd g. f r)
      = (\<Sum>k\<leftarrow>?ks. \<Sum>r\<leftarrow>filter (\<lambda>r. key r = Some k) rows. f r)"
    by (simp add: groupby_def o_def)
  also have "\<dots> = (\<Sum>r\<leftarrow>filter (\<lambda>r. key r \<noteq> None) rows. f r)"
    by (rule sum_groups) (auto simp: set_map_filter_key)
  finally show ?thesis .
qed

lemma sum_list_sort_key:
  fixes g :: "'a \<Rightarrow> int"
  shows "sum_list (map g (sort_key h xs)) = sum_list (map g xs)"
proof -
  have "sum_list (map g (sort_key h xs)) = sum_mset (image_mset g (mset (sort_key h xs)))"
    by (simp only: mset_map [symmetric] sum_mset_sum_list)
  also have "\<dots> = sum_mset (image_mset g (mset xs))" by simp
  also have "\<dots> = sum_list (map g xs)"
    by (simp only: mset_map [symmetric] sum_mset_sum_list)
  finally show ?thesis .
qed

lemma series_sum_fatalities:
  "series_sum (map total_fatalities rows)
     = (\<Sum>r\<leftarrow>rows. case total_fatalities r of None \<Rightarrow> 0 | Some n \<Rightarrow> n)"
  by (simp add: series_sum_def o_def)

lemma collect_Inr: "collect xs = Inr vs \<Longrightarrow> xs = map Inr vs"
  by (induction xs arbitrary: vs) (auto split: sum.splits)

lemma map_Inr_transfer:
  assumes "map f xs = map Inr ys" and "\<And>x y. f x = Inr y \<Longrightarrow> h y = k x"
  shows "map h ys = map k xs"
  using assms by (induction xs arbitrary: ys) auto

lemma agg_location_Inr:
  assumes "agg_location g = Inr b"
  shows "lat_rounded b = fst (fst g)" "lon_rounded b = snd (fst g)"
    "sum_fatalities b = series_sum (map total_fatalities (snd g))"
    "num_incidents b = series_count (map incident_date (snd g))"
    "mode_or_unknown (map event_type (snd g)) = Inr (top_event_type b)"
    "mode_or_unknown (map location_type (snd g)) = Inr (top_location_type b)"
  using assms by (auto simp: agg_location_def split: sum.splits)

lemma location_fatalities_Inr:
  assumes "location_fatalities df = Inr t"
  obtains t0 where "map agg_location (groupby rounded_key df) = map Inr t0"
    and "t = sort_key (\<lambda>b. - sum_fatalities b) t0"
    and "\<not> list_ex (\<lambda>r. is_str (latitude r) \<or> is_str (longitude r)) df"
  using assms by (auto simp: location_fatalities_def split: if_splits sum.splits dest: collect_Inr)

lemma location_fatalities_sum:
  assumes "location_fatalities df = Inr t"
  shows "sum_list (map sum_fatalities t) = total_deaths (filter (\<lambda>r. rounded_key r \<noteq> None) df)"
proof -
  from assms obtain t0 where t0: "map agg_location (groupby rounded_key df) = map Inr t0"
    and t: "t = sort_key (\<lambda>b. - sum_fatalities b) t0"
    by (rule location_fatalities_Inr)
  have "map sum_fatalities t0
      = map (\<lambda>g. series_sum (map total_fatalities (snd g))) (groupby rounded_key df)"
    using t0 by (rule map_Inr_transfer) (rule agg_location_Inr)
  then have "sum_list (map sum_fatalities t0)
      = (\<Sum>g\<leftarrow>groupby rounded_key df. \<Sum>r\<leftarrow>snd g. case total_fatalities r of None \<Rightarrow> 0 | Some n \<Rightarrow> n)"
    by (simp add: series_sum_fatalities)
  also have "\<dots> = total_deaths (filter (\<lambda>r. rounded_key r \<noteq> None) df)"
    by (simp only: groupby_sum total_deaths_def series_sum_fatalities)
  finally show ?thesis by (simp add: t sum_list_sort_key)
qed

lemma summary_sum:
  "sum_list (map deaths (sort_key (\<lambda>b. - deaths b) (map (summarize key total_fatalities) (groupby key df))))
     = total_deaths (filter (\<lambda>r. key r \<noteq> None) df)"
proof -
  have "sum_list (map deaths (map (summarize key total_fatalities) (groupby key df)))
      = (\<Sum>g\<leftarrow>groupby key df. \<Sum>r\<leftarrow>snd g. case total_fatalities r of None \<Rightarrow> 0 | Some n \<Rightarrow> n)"
    by (simp add: summarize_def o_def series_sum_fatalities)
  also have "\<dots> = total_deaths (filter (\<lambda>r. key r \<noteq> None) df)"
    by (simp only: groupby_sum total_deaths_def series_sum_fatalities)
  finally show ?thesis by (simp only: sum_list_sort_key)
qed

lemma in_prepare_slider_date:
  assumes "r \<in> set (prepare_fatal_events_slider pn G df)"
  shows "\<exists>d. incident_date r = Val d"
proof -
  from assms obtain r0 p where r: "r = r0\<lparr>latitude := coerce pn (latitude r0), longitude := coerce pn (longitude r0),
       incident_date := coerce p (incident_date r0)\<rparr>"
    and d: "coerce p (incident_date r0) \<noteq> Null"
    unfolding prepare_slider_canon by auto
  from coerce_Val[OF d] r show ?thesis by auto
qed

lemma filter_all: "(\<And>r. r \<in> set xs \<Longrightarrow> P r) \<Longrightarrow> filter P xs = xs"
  by (induction xs) auto

lemma prepare_deadly_keyed:
  "filter (\<lambda>r. rounded_key r \<noteq> None) (prepare_fatal_events_deadly pn df)
     = prepare_fatal_events_deadly pn df"
proof (rule filter_all)
  fix r assume "r \<in> set (prepare_fatal_events_deadly pn df)"
  then obtain x y where "latitude r = Val x" "longitude r = Val y"
    using in_prepare_deadly by blast
  then show "rounded_key r \<noteq> None" by (simp add: rounded_key_def)
qed

lemma prepare_slider_dated:
  "filter (\<lambda>r. year_month r \<noteq> None) (prepare_fatal_events_slider pn G df)
     = prepare_fatal_events_slider pn G df"
proof (rule filter_all)
  fix r assume "r \<in> set (prepare_fatal_events_slider pn G df)"
  then obtain d where "incident_date r = Val d" using in_prepare_slider_date by blast
  then show "year_month r \<noteq> None" by (simp add: year_month_def)
qed

lemma prepare_slider_no_str:
  "\<not> list_ex (\<lambda>r. is_str (incident_date r)) (prepare_fatal_events_slider pn G df)"
proof
  assume "list_ex (\<lambda>r. is_str (incident_date r)) (prepare_fatal_events_slider pn G df)"
  then obtain r where "r \<in> set (prepare_fatal_events_slider pn G df)" "is_str (incident_date r)"
    by (auto simp: list_ex_iff)
  moreover from this(1) obtain d where "incident_date r = Val d"
    using in_prepare_slider_date by blast
  ultimately show False by (simp add: is_str_def)
qed

text \<open>
  C2, as amended. On a frame that \<open>prepare_fatal_events\<close> produced, the buckets of the
  rounded-coordinate aggregation (when it returns) and of the year-month aggregation
  sum to the total of the frame. The buckets of the event-type aggregation sum to the
  total of the rows whose event type is not null: \<open>groupby\<close> drops the others.
\<close>

theorem aggregation_sums_conserved:
  "(location_fatalities (prepare_fatal_events_deadly pn df) = Inr t \<longrightarrow>
      sum_list (map sum_fatalities t) = total_deaths (prepare_fatal_events_deadly pn df))
   \<and> (\<exists>ms. month_summary (prepare_fatal_events_slider pn G df) = Inr ms
        \<and> sum_list (map deaths ms) = total_deaths (prepare_fatal_events_slider pn G df))
   \<and> sum_list (map deaths (event_summary ev)) = total_deaths (filter (\<lambda>r. event_type r \<noteq> None) ev)"
proof (intro conjI impI)
  assume "location_fatalities (prepare_fatal_events_deadly pn df) = Inr t"
  then show "sum_list (map sum_fatalities t) = total_deaths (prepare_fatal_events_deadly pn df)"
    by (simp only: location_fatalities_sum prepare_deadly_keyed)
next
  show "\<exists>ms. month_summary (prepare_fatal_events_slider pn G df) = Inr ms
        \<and> sum_list (map deaths ms) = total_deaths (prepare_fatal_events_slider pn G df)"
  proof -
    let ?p = "prepare_fatal_events_slider pn G df"
    let ?ms = "sort_key (\<lambda>b. - deaths b) (map (summarize year_month total_fatalities) (groupby year_month ?p))"
    have "month_summary ?p = Inr ?ms"
      using prepare_slider_no_str [of pn G df] by (simp add: month_summary_def)
    moreover have "sum_list (map deaths ?ms) = total_deaths ?p"
      by (simp only: summary_sum prepare_slider_dated)
    ultimately show ?thesis by blast
  qed
next
  show "sum_list (map deaths (event_summary ev)) = total_deaths (filter (\<lambda>r. event_type r \<noteq> None) ev)"
    by (simp only: event_summary_def summary_sum)
qed

section \<open>Aggregation at concrete frames\<close>

lemmas agg_simps = location_fatalities_def print_deadliest_locations_def groupby_def
  rounded_key_def round3_def round_half_even_def agg_location_def
  mode_or_unknown_def series_mode_def series_sum_def series_count_def is_str_def Let_def
  event_summary_def month_summary_def summarize_def year_month_def total_deaths_def

lemma prepare_deadly_fatal_at:
  "prepare_fatal_events_deadly parse_decimal [fatal_at 40.75 (-73.98) 2 e l]
     = [fatal_at 40.75 (-73.98) 2 e l]"
  by (simp add: prepare_fatal_events_deadly_def Let_def fatal_at_def parse_simps)

lemma location_fatalities_fatal_at:
  "location_fatalities [fatal_at 40.75 (-73.98) 2 (Some ''Suicide'') (Some ''Station'')]
     = Inr [\<lparr>lat_rounded = 40.75, lon_rounded = -73.98, sum_fatalities = 2, num_incidents = 1,
          top_event_type = ''Suicide'', top_location_type = ''Station''\<rparr>]"
  by (simp add: agg_simps fatal_at_def notna_def)

text \<open>One fatal row with an event type and a location type, through all three aggregations.\<close>

theorem aggregation_sums_conserved_witness:
  "sum_list (map sum_fatalities
      [\<lparr>lat_rounded = 40.75, lon_rounded = -73.98, sum_fatalities = 2, num_incidents = 1,
          top_event_type = ''Suicide'', top_location_type = ''Station''\<rparr>])
     = total_deaths (prepare_fatal_events_deadly parse_decimal
         [fatal_at 40.75 (-73.98) 2 (Some ''Suicide'') (Some ''Station'')])
   \<and> (\<exists>ms. month_summary (prepare_fatal_events_slider parse_decimal example_datetime
         [fatal_at 40.75 (-73.98) 2 (Some ''Suicide'') (Some ''Station'')]) = Inr ms
        \<and> sum_list (map deaths ms) = total_deaths (prepare_fatal_events_slider parse_decimal example_datetime
         [fatal_at 40.75 (-73.98) 2 (Some ''Suicide'') (Some ''Station'')]))
   \<and> sum_list (map deaths (event_summary [fatal_at 40.75 (-73.98) 2 (Some ''Suicide'') (Some ''Station'')]))
     = total_deaths (filter (\<lambda>r. event_type r \<noteq> None)
         [fatal_at 40.75 (-73.98) 2 (Some ''Suicide'') (Some ''Station'')])"
proof -
  let ?df = "[fatal_at 40.75 (-73.98) 2 (Some ''Suicide'') (Some ''Station'')]"
  let ?t = "[\<lparr>lat_rounded = 40.75, lon_rounded = -73.98, sum_fatalities = 2, num_incidents = 1,
          top_event_type = ''Suicide'', top_location_type = ''Station''\<rparr>]"
  have "location_fatalities (prepare_fatal_events_deadly parse_decimal ?df) = Inr ?t"
    by (simp only: prepare_deadly_fatal_at location_fatalities_fatal_at)
  with aggregation_sums_conserved [of parse_decimal ?df ?t example_datetime ?df]
  show ?thesis by blast
qed

text \<open>
  A fatal New York row with a null event type survives \<open>prepare_fatal_events\<close> and
  falls out of the event-type aggregation: the buckets sum to 0, the frame to 2.
\<close>

theorem null_event_type_not_counted:
  "sum_list (map deaths (event_summary
      (prepare_fatal_events_basemap parse_decimal [example_mta None]))) = 0
   \<and> total_deaths (prepare_fatal_events_basemap parse_decimal [example_mta None]) = 2"
  by (simp add: agg_simps prepare_fatal_events_basemap_def example_mta_def parse_simps)

text \<open>
  C3. The claim asks for the label \<open>Unknown\<close> on a bucket whose event types are all
  null. The code raises there: one fatal row with coordinates and a null event type
  makes \<open>print_deadliest_locations\<close> fail with the lookup \<open>x.mode()[0]\<close> on an empty
  result, since the guard \<open>len(x) > 0\<close> counts the null.
\<close>

theorem all_null_event_type_raises:
  "print_deadliest_locations
     (prepare_fatal_events_deadly parse_decimal [fatal_at 40.75 (-73.98) 2 None (Some ''Station'')])
   = Inl KeyError"
  by (simp only: prepare_deadly_fatal_at) (simp add: agg_simps fatal_at_def)

text \<open>
  C4. On the two example rows the agency filter keeps exactly the first row, and the
  bounding box keeps it, in \<open>fta_nyc_basemap.py\<close> and in
  \<open>fta_nyc_time_slider_map.py\<close>; whatever the event type \<open>e\<close> of that row is, the
  fatality sums of the event-type aggregation add up to 2.
\<close>

theorem example_pipeline:
  "filter_new_york_data [example_mta (Some e), example_la e'] = Inr [example_mta (Some e)]
   \<and> prepare_fatal_events_basemap parse_decimal [example_mta (Some e)]
     = [(example_mta (Some e))\<lparr>latitude := Val 40.75, longitude := Val (-73.98)\<rparr>]
   \<and> event_summary [(example_mta (Some e))\<lparr>latitude := Val 40.75, longitude := Val (-73.98)\<rparr>]
     = [\<lparr>bucket_key = e, deaths = 2, incidents = 1\<rparr>]
   \<and> sum_list (map deaths
        (event_summary [(example_mta (Some e))\<lparr>latitude := Val 40.75, longitude := Val (-73.98)\<rparr>])) = 2
   \<and> prepare_fatal_events_slider parse_decimal example_datetime [example_mta (Some e)]
     = [(example_mta (Some e))\<lparr>latitude := Val 40.75, longitude := Val (-73.98),
          incident_date := Val \<lparr>year = 2019, month = 3, day = 1\<rparr>\<rparr>]
   \<and> sum_list (map deaths
        (event_summary [(example_mta (Some e))\<lparr>latitude := Val 40.75, longitude := Val (-73.98),
          incident_date := Val \<lparr>year = 2019, month = 3, day = 1\<rparr>\<rparr>])) = 2"
proof (intro conjI)
  show "filter_new_york_data [example_mta (Some e), example_la e'] = Inr [example_mta (Some e)]"
    by (rule filter_two_rows)
  show "prepare_fatal_events_basemap parse_decimal [example_mta (Some e)]
     = [(example_mta (Some e))\<lparr>latitude := Val 40.75, longitude := Val (-73.98)\<rparr>]"
    by (simp add: prepare_fatal_events_basemap_def Let_def example_mta_def parse_simps)
  have col: "column_parser example_datetime (map incident_date
      (filter (\<lambda>r. fatal r \<and> notna (latitude r) \<and> notna (longitude r)) [example_mta (Some e)]))
    = parse_iso_date"
    by (simp add: example_mta_def fatal_def notna_def example_dates_column)
  show "prepare_fatal_events_slider parse_decimal example_datetime [example_mta (Some e)]
     = [(example_mta (Some e))\<lparr>latitude := Val 40.75, longitude := Val (-73.98),
          incident_date := Val \<lparr>year = 2019, month = 3, day = 1\<rparr>\<rparr>]"
    unfolding prepare_slider_canon col by (simp add: example_mta_def parse_simps)
qed (simp_all add: agg_simps example_mta_def)

section \<open>The rounded-coordinate table\<close>

lemma fold_max_init: "a \<le> fold max xs (a::nat)"
proof (induction xs arbitrary: a)
  case Nil show ?case by simp
next
  case (Cons y ys)
  have "a \<le> max y a" by simp
  also have "\<dots> \<le> fold max ys (max y a)" by (rule Cons.IH)
  finally show ?case by simp
qed

lemma fold_max_ge: "x \<in> set xs \<Longrightarrow> x \<le> fold max xs (a::nat)"
proof (induction xs arbitrary: a)
  case Nil then show ?case by simp
next
  case (Cons y ys)
  show ?case
  proof (cases "x = y")
    case True
    have "y \<le> max y a" by simp
    also have "\<dots> \<le> fold max ys (max y a)" by (rule fold_max_init)
    finally show ?thesis using True by simp
  next
    case False
    with Cons.prems have "x \<in> set ys" by simp
    then show ?thesis using Cons.IH by simp
  qed
qed

lemma fold_max_in: "fold max xs (a::nat) = a \<or> fold max xs a \<in> set xs"
proof (induction xs arbitrary: a)
  case Nil show ?case by simp
next
  case (Cons y ys)
  from Cons.IH [of "max y a"] show ?case by (auto simp: max_def split: if_splits)
qed

lemma set_map_filter_id: "set (List.map_filter id col) = {v. Some v \<in> set col}"
  by (induction col) (auto simp: List.map_filter_def)

lemma count_map_filter_id: "count_list (List.map_filter id col) v = count_list col (Some v)"
proof (induction col)
  case Nil show ?case by (simp add: List.map_filter_def)
next
  case (Cons c col)
  then show ?case by (cases c) (auto simp: map_filter_simps)
qed

lemma set_series_mode: "set (series_mode col) = {v. modal col v}"
proof -
  let ?vs = "List.map_filter id col"
  let ?top = "fold max (map (count_list ?vs) ?vs) 0"
  have set: "set (series_mode col) = {v \<in> set ?vs. count_list ?vs v = ?top}"
    by (auto simp: series_mode_def Let_def)
  have ub: "count_list ?vs w \<le> ?top" if "w \<in> set ?vs" for w
    using that by (intro fold_max_ge) simp
  have attained: "\<exists>u \<in> set ?vs. count_list ?vs u = ?top" if "w \<in> set ?vs" for w
  proof -
    from that have "count_list ?vs w \<noteq> 0" by (simp add: count_list_0_iff)
    with ub [OF that] have "?top \<noteq> 0" by simp
    with fold_max_in [of "map (count_list ?vs) ?vs" 0] show ?thesis by auto
  qed
  show ?thesis
  proof (intro set_eqI iffI)
    fix v assume "v \<in> set (series_mode col)"
    with set have v: "v \<in> set ?vs" "count_list ?vs v = ?top" by auto
    show "v \<in> {v. modal col v}"
      using v ub by (auto simp: modal_def set_map_filter_id count_map_filter_id)
  next
    fix v assume "v \<in> {v. modal col v}"
    then have m: "Some v \<in> set col"
      "\<And>w. Some w \<in> set col \<Longrightarrow> count_list col (Some w) \<le> count_list col (Some v)"
      by (auto simp: modal_def)
    from m(1) have v: "v \<in> set ?vs" by (simp add: set_map_filter_id)
    from attained [OF v] obtain u where u: "u \<in> set ?vs" "count_list ?vs u = ?top" by blast
    from u(1) have "count_list ?vs u \<le> count_list ?vs v"
      using m(2) [of u] by (simp add: set_map_filter_id count_map_filter_id)
    with u(2) ub [OF v] have "count_list ?vs v = ?top" by simp
    with v set show "v \<in> set (series_mode col)" by simp
  qed
qed

lemma sorted_series_mode: "sorted (series_mode col)"
  by (simp add: series_mode_def Let_def)

lemma series_mode_head: "series_mode col = m # ms \<Longrightarrow> least_modal col m"
proof -
  assume eq: "series_mode col = m # ms"
  have "m \<in> set (series_mode col)" by (simp add: eq)
  then have 1: "modal col m" by (simp add: set_series_mode)
  have 2: "m \<le> w" if "modal col w" for w
  proof -
    from that have "w \<in> set (m # ms)" by (simp add: set_series_mode eq [symmetric])
    moreover have "sorted (m # ms)" using sorted_series_mode [of col] by (simp add: eq)
    ultimately show ?thesis by auto
  qed
  from 1 2 show ?thesis by (simp add: least_modal_def)
qed

lemma mode_or_unknown_Inr:
  "col \<noteq> [] \<Longrightarrow> mode_or_unknown col = Inr m \<Longrightarrow> least_modal col m"
  by (auto simp: mode_or_unknown_def split: list.splits dest: series_mode_head)

lemma round_half_even_near: "\<bar>of_int (round_half_even x) - x\<bar> \<le> 1 / 2"
  unfolding round_half_even_def Let_def by (auto split: if_splits)

lemma round3_near: "\<bar>round3 x - x\<bar> \<le> 1 / 2000"
proof -
  have "\<bar>of_int (round_half_even (x * 1000)) - x * 1000\<bar> \<le> 1 / 2"
    by (rule round_half_even_near)
  then show ?thesis by (simp add: round3_def field_simps abs_le_iff)
qed

lemma map_Inr_member:
  "map f xs = map Inr ys \<Longrightarrow> y \<in> set ys \<Longrightarrow> \<exists>x \<in> set xs. f x = Inr y"
  by (induction xs arbitrary: ys) auto

lemma agg_location_bucket:
  assumes g: "g \<in> set (groupby rounded_key df)" and b: "agg_location g = Inr b"
  shows "bucket_of df b"
proof -
  let ?rows = "filter (\<lambda>r. rounded_key r = Some (lat_rounded b, lon_rounded b)) df"
  have key: "(lat_rounded b, lon_rounded b) = fst g"
    using agg_location_Inr(1,2) [OF b] by simp
  have rows: "snd g = ?rows"
    using groupby_member [OF g] by (simp add: key)
  have ne: "?rows \<noteq> []"
    using groupby_nonempty [OF g] by (simp add: rows)
  have s: "sum_fatalities b = (\<Sum>r\<leftarrow>?rows. case total_fatalities r of None \<Rightarrow> 0 | Some n \<Rightarrow> n)"
    using agg_location_Inr(3) [OF b] by (simp add: rows series_sum_fatalities)
  have n: "list_all (\<lambda>r. incident_date r \<noteq> Null) ?rows \<longrightarrow> num_incidents b = length ?rows"
  proof
    assume "list_all (\<lambda>r. incident_date r \<noteq> Null) ?rows"
    then have "filter (\<lambda>r. incident_date r \<noteq> Null) ?rows = ?rows"
      by (intro filter_all) (simp add: list_all_iff)
    then have "length (filter (\<lambda>r. incident_date r \<noteq> Null) ?rows) = length ?rows"
      by (rule arg_cong)
    with agg_location_Inr(4) [OF b] show "num_incidents b = length ?rows"
      by (simp add: rows series_count_def filter_map o_def notna_def)
  qed
  have e: "least_modal (map event_type ?rows) (top_event_type b)"
    using agg_location_Inr(5) [OF b] ne by (intro mode_or_unknown_Inr) (simp_all add: rows)
  have l: "least_modal (map location_type ?rows) (top_location_type b)"
    using agg_location_Inr(6) [OF b] ne by (intro mode_or_unknown_Inr) (simp_all add: rows)
  from ne s n e l show ?thesis by (simp add: bucket_of_def Let_def)
qed

lemma round3_grid: "\<exists>n::int. round3 x = of_int n / 1000"
  by (auto simp: round3_def)

lemma rounded_key_Val:
  "latitude r = Val x \<Longrightarrow> longitude r = Val y \<Longrightarrow> rounded_key r = Some (round3 x, round3 y)"
  by (simp add: rounded_key_def)

lemma t_a:
  assumes "print_deadliest_locations df = Inr table" and "df \<noteq> []"
  obtains t where "location_fatalities df = Inr t" "table = take 15 t"
  using assms by (auto simp: print_deadliest_locations_def split: sum.splits)

lemma sort_desc_sorted:
  "sorted_wrt (\<lambda>a b. sum_fatalities b \<le> sum_fatalities a) (sort_key (\<lambda>b. - sum_fatalities b) t0)"
proof -
  have "sorted (map (\<lambda>b. - sum_fatalities b) (sort_key (\<lambda>b. - sum_fatalities b) t0))"
    by (rule sorted_sort_key)
  then show ?thesis by (simp only: sorted_map neg_le_iff_le)
qed

lemma location_table_keys:
  assumes t0: "map agg_location (groupby rounded_key df) = map Inr t0"
  shows "map (\<lambda>b. (lat_rounded b, lon_rounded b)) t0 = map fst (groupby rounded_key df)"
  using t0 by (rule map_Inr_transfer) (simp add: agg_location_Inr(1,2))

lemma location_table_distinct:
  assumes t0: "map agg_location (groupby rounded_key df) = map Inr t0"
  shows "distinct (map (\<lambda>b. (lat_rounded b, lon_rounded b)) (sort_key (\<lambda>b. - sum_fatalities b) t0))"
proof -
  have "distinct (map (\<lambda>b. (lat_rounded b, lon_rounded b)) t0)"
    by (simp only: location_table_keys [OF t0] groupby_distinct)
  then show ?thesis
    by (simp only: distinct_map set_sort distinct_sort)
qed

lemma location_table_set:
  assumes t0: "map agg_location (groupby rounded_key df) = map Inr t0"
  shows "set (map (\<lambda>b. (lat_rounded b, lon_rounded b)) (sort_key (\<lambda>b. - sum_fatalities b) t0))
    = {k. \<exists>r \<in> set df. rounded_key r = Some k}"
proof -
  have "set (map (\<lambda>b. (lat_rounded b, lon_rounded b)) t0) = {k. \<exists>r \<in> set df. rounded_key r = Some k}"
    by (simp only: location_table_keys [OF t0] groupby_key_set)
  then show ?thesis
    by (simp only: set_map set_sort)
qed

lemma location_table_buckets:
  assumes t0: "map agg_location (groupby rounded_key df) = map Inr t0"
    and b: "b \<in> set (sort_key (\<lambda>b. - sum_fatalities b) t0)"
  shows "bucket_of df b"
proof -
  from b have "b \<in> set t0" by (simp only: set_sort)
  from map_Inr_member [OF t0 this]
  obtain g where "g \<in> set (groupby rounded_key df)" "agg_location g = Inr b" ..
  then show "bucket_of df b" by (rule agg_location_bucket)
qed

lemma print_two_buckets:
  "print_deadliest_locations
     [fatal_at 40.75 (-73.98) 1 (Some ''Suicide'') (Some ''Station''),
      fatal_at 40.76 (-73.99) 3 (Some ''Homicide'') (Some ''Track'')]
   = Inr [\<lparr>lat_rounded = 40.76, lon_rounded = -73.99, sum_fatalities = 3, num_incidents = 1,
            top_event_type = ''Homicide'', top_location_type = ''Track''\<rparr>,
          \<lparr>lat_rounded = 40.75, lon_rounded = -73.98, sum_fatalities = 1, num_incidents = 1,
            top_event_type = ''Suicide'', top_location_type = ''Station''\<rparr>]"
  by (simp add: agg_simps fatal_at_def notna_def)

text \<open>
  C6, as amended. Whenever \<open>print_deadliest_locations\<close> returns its table for a
  non-empty frame, the table is the first 15 rows of \<open>location_fatalities\<close>, which is
  sorted descending by the fatality sum and has exactly one bucket per pair of rounded
  coordinates of the frame. Each bucket sums the fatalities of its rows, counts its
  rows when each of them has an incident date, and carries the modal event type and
  location type, a tie going to the smallest value in string order. The key of a row
  rounds both coordinates to the nearest thousandth.
\<close>

theorem deadliest_locations_table:
  assumes "print_deadliest_locations df = Inr table" and "df \<noteq> []"
  shows "(\<exists>t. location_fatalities df = Inr t \<and> table = take 15 t
      \<and> sorted_wrt (\<lambda>a b. sum_fatalities b \<le> sum_fatalities a) t
      \<and> distinct (map (\<lambda>b. (lat_rounded b, lon_rounded b)) t)
      \<and> set (map (\<lambda>b. (lat_rounded b, lon_rounded b)) t)
          = {k. \<exists>r \<in> set df. rounded_key r = Some k}
      \<and> (\<forall>b \<in> set t. bucket_of df b))
    \<and> (\<forall>r x y. latitude r = Val x \<and> longitude r = Val y \<longrightarrow>
          rounded_key r = Some (round3 x, round3 y))
    \<and> (\<forall>x. \<bar>round3 x - x\<bar> \<le> 1 / 2000 \<and> (\<exists>n::int. round3 x = of_int n / 1000))"
proof (intro conjI)
  from assms obtain t where t: "location_fatalities df = Inr t" and table: "table = take 15 t"
    by (rule t_a)
  from t obtain t0 where t0: "map agg_location (groupby rounded_key df) = map Inr t0"
    and sorted: "t = sort_key (\<lambda>b. - sum_fatalities b) t0"
    by (rule location_fatalities_Inr)
  have 1: "sorted_wrt (\<lambda>a b. sum_fatalities b \<le> sum_fatalities a) t"
    unfolding sorted by (rule sort_desc_sorted)
  have 2: "distinct (map (\<lambda>b. (lat_rounded b, lon_rounded b)) t)"
    unfolding sorted by (rule location_table_distinct [OF t0])
  have 3: "set (map (\<lambda>b. (lat_rounded b, lon_rounded b)) t) = {k. \<exists>r \<in> set df. rounded_key r = Some k}"
    unfolding sorted by (rule location_table_set [OF t0])
  have 4: "\<forall>b \<in> set t. bucket_of df b"
    unfolding sorted by (rule ballI) (rule location_table_buckets [OF t0])
  show "\<exists>t. location_fatalities df = Inr t \<and> table = take 15 t
      \<and> sorted_wrt (\<lambda>a b. sum_fatalities b \<le> sum_fatalities a) t
      \<and> distinct (map (\<lambda>b. (lat_rounded b, lon_rounded b)) t)
      \<and> set (map (\<lambda>b. (lat_rounded b, lon_rounded b)) t)
          = {k. \<exists>r \<in> set df. rounded_key r = Some k}
      \<and> (\<forall>b \<in> set t. bucket_of df b)"
    by (rule exI [of _ t]) (intro conjI t table 1 2 3 4)
next
  show "\<forall>r x y. latitude r = Val x \<and> longitude r = Val y \<longrightarrow>
          rounded_key r = Some (round3 x, round3 y)"
    by (intro allI impI, elim conjE) (rule rounded_key_Val)
next
  show "\<forall>x. \<bar>round3 x - x\<bar> \<le> 1 / 2000 \<and> (\<exists>n::int. round3 x = of_int n / 1000)"
    by (intro allI conjI round3_near round3_grid)
qed

theorem deadliest_locations_table_witness:
  "\<exists>t. location_fatalities
         [fatal_at 40.75 (-73.98) 1 (Some ''Suicide'') (Some ''Station''),
          fatal_at 40.76 (-73.99) 3 (Some ''Homicide'') (Some ''Track'')] = Inr t
     \<and> [\<lparr>lat_rounded = 40.76, lon_rounded = -73.99, sum_fatalities = 3, num_incidents = 1,
            top_event_type = ''Homicide'', top_location_type = ''Track''\<rparr>,
          \<lparr>lat_rounded = 40.75, lon_rounded = -73.98, sum_fatalities = 1, num_incidents = 1,
            top_event_type = ''Suicide'', top_location_type = ''Station''\<rparr>] = take 15 t
     \<and> sorted_wrt (\<lambda>a b. sum_fatalities b \<le> sum_fatalities a) t
     \<and> distinct (map (\<lambda>b. (lat_rounded b, lon_rounded b)) t)
     \<and> set (map (\<lambda>b. (lat_rounded b, lon_rounded b)) t)
         = {k. \<exists>r \<in> set [fatal_at 40.75 (-73.98) 1 (Some ''Suicide'') (Some ''Station''),
                  fatal_at 40.76 (-73.99) 3 (Some ''Homicide'') (Some ''Track'')].
                rounded_key r = Some k}
     \<and> (\<forall>b \<in> set t. bucket_of
           [fatal_at 40.75 (-73.98) 1 (Some ''Suicide'') (Some ''Station''),
            fatal_at 40.76 (-73.99) 3 (Some ''Homicide'') (Some ''Track'')] b)"
proof -
  let ?df = "[fatal_at 40.75 (-73.98) 1 (Some ''Suicide'') (Some ''Station''),
      fatal_at 40.76 (-73.99) 3 (Some ''Homicide'') (Some ''Track'')]"
  have ne: "?df \<noteq> []" by simp
  from deadliest_locations_table [OF print_two_buckets ne] show ?thesis
    by (rule conjunct1)
qed

text \<open>
  Two rows of one bucket, \<open>Suicide\<close> first and \<open>Homicide\<close> second, once each: the label
  is \<open>Homicide\<close>, not the value met first.
\<close>

theorem mode_tie_takes_smallest:
  "print_deadliest_locations
     [fatal_at 40.75 (-73.98) 1 (Some ''Suicide'') (Some ''Station''),
      fatal_at 40.7502 (-73.9801) 1 (Some ''Homicide'') (Some ''Station'')]
   = Inr [\<lparr>lat_rounded = 40.75, lon_rounded = -73.98, sum_fatalities = 2, num_incidents = 2,
            top_event_type = ''Homicide'', top_location_type = ''Station''\<rparr>]
   \<and> event_type (fatal_at 40.75 (-73.98) 1 (Some ''Suicide'') (Some ''Station'')) = Some ''Suicide''"
  by (simp add: agg_simps fatal_at_def notna_def)

section \<open>The analysis script's filter\<close>

text \<open>
  C10. In \<open>fta_safety_analysis.py\<close>, when the frame has no \<open>state\<close> column, no
  \<open>agency_name\<close> column and no column whose lower-cased name contains \<open>location\<close>,
  \<open>city\<close>, \<open>state\<close> or \<open>agency\<close>, \<open>filter_new_york_data\<close> returns the frame it was
  given, without raising: every row passes.
\<close>

theorem no_location_column_keeps_all:
  assumes "''state'' \<notin> set (col_names df)" and "''agency_name'' \<notin> set (col_names df)"
    and "\<forall>c \<in> set (col_names df).
           \<not> (str_in ''location'' (str_lower c) \<or> str_in ''city'' (str_lower c) \<or>
              str_in ''state'' (str_lower c) \<or> str_in ''agency'' (str_lower c))"
  shows "snd (filter_new_york_data_analysis fmt df) = Inr df"
proof -
  from assms(3) have "filter location_like (col_names df) = []"
    by (simp add: filter_empty_conv location_like_def)
  with assms(1,2) show ?thesis
    by (simp add: filter_new_york_data_analysis_def Let_def)
qed

lemmas lower_simps = str_lower_def lower_char_def lower_letters_def upper_letters_def

theorem no_location_column_keeps_all_witness:
  "snd (filter_new_york_data_analysis (\<lambda>x. ''1.0'') example_table) = Inr example_table"
proof (rule no_location_column_keeps_all)
  show "''state'' \<notin> set (col_names example_table)" by (simp add: example_table_def)
  show "''agency_name'' \<notin> set (col_names example_table)" by (simp add: example_table_def)
  show "\<forall>c \<in> set (col_names example_table).
           \<not> (str_in ''location'' (str_lower c) \<or> str_in ''city'' (str_lower c) \<or>
              str_in ''state'' (str_lower c) \<or> str_in ''agency'' (str_lower c))"
    by (simp add: example_table_def lower_simps)
qed

section \<open>Runs that stop early\<close>

lemma main_map_fetch_failure:
  "main_map start prepare w place report (Inl e) =
     [Log INFO start, Log INFO ''Downloading FTA Major Safety Events data...'',
      Log ERROR (''Failed to load data: '' @ e), Log ERROR ''Cannot proceed without data'']"
  by (simp add: main_map_def load_fta_data_def)

lemma main_map_empty:
  "filter_new_york_data df = Inr ny \<Longrightarrow> prepare ny = [] \<Longrightarrow>
   main_map start prepare w place report (Inr df) =
     [Log INFO start, Log INFO ''Downloading FTA Major Safety Events data...'',
      Log INFO (''Successfully loaded '' @ str_nat (length df) @ '' safety events''),
      Log INFO ''Filtering for New York transit agencies...'',
      Log INFO (''Found '' @ str_nat (length ny) @ '' incidents in New York'')]
     @ prepare_fatal_events_log w ny []
     @ [Log ERROR (''No fatal incidents with coordinates found for '' @ place)]"
  by (simp add: main_map_def load_fta_data_def Let_def)

lemma main_map_filter_raises:
  "filter_new_york_data df = Inl e \<Longrightarrow>
   main_map start prepare w place report (Inr df) =
     [Log INFO start, Log INFO ''Downloading FTA Major Safety Events data...'',
      Log INFO (''Successfully loaded '' @ str_nat (length df) @ '' safety events''),
      Log INFO ''Filtering for New York transit agencies...'', Uncaught e]"
  by (simp add: main_map_def load_fta_data_def Let_def)

lemma main_analysis_fetch_failure:
  "main_analysis fmt explore analyze (Inl e) =
     [Log INFO ''Starting FTA Safety Events Analysis for New York...'',
      Log INFO ''Downloading FTA Major Safety Events data...'',
      Log ERROR (''Failed to load data: '' @ e), Log ERROR ''Cannot proceed without data'']"
  by (simp add: main_analysis_def load_fta_data_def)

lemma main_analysis_empty:
  "snd (filter_new_york_data_analysis fmt df) = Inr ny \<Longrightarrow> records ny = [] \<Longrightarrow>
   main_analysis fmt explore analyze (Inr df) =
     [Log INFO ''Starting FTA Safety Events Analysis for New York...'',
      Log INFO ''Downloading FTA Major Safety Events data...'',
      Log INFO (''Successfully loaded '' @ str_nat (length (records df)) @ '' safety events'')]
     @ explore df
     @ fst (filter_new_york_data_analysis fmt df)
     @ [Log WARNING ''No New York data found. Showing guidance for manual filtering.'',
        Print (nl # ''Please review the dataset columns above and filter manually.'')]"
  by (cases "filter_new_york_data_analysis fmt df")
    (simp add: main_analysis_def load_fta_data_def Let_def)

text \<open>
  C8, as amended. In \<open>fta_safety_analysis.py\<close>, when \<open>filter_new_york_data\<close> returns a
  frame without rows, the run ends with a warning and a printed guidance message,
  before any analysis. In the three map scripts, when \<open>filter_new_york_data\<close> returns
  and \<open>prepare_fatal_events\<close> leaves no row (no agency row, or no fatal row with
  coordinates), the run ends with a log record at level ERROR and nothing printed,
  before any report. In all four a failed download ends the run with two ERROR records
  and nothing else.
\<close>

theorem empty_result_and_fetch_failure:
  "(snd (filter_new_york_data_analysis fmt tb) = Inr ntb \<and> records ntb = [] \<longrightarrow>
      main_analysis fmt explore analyze (Inr tb) =
        [Log INFO ''Starting FTA Safety Events Analysis for New York...'',
         Log INFO ''Downloading FTA Major Safety Events data...'',
         Log INFO (''Successfully loaded '' @ str_nat (length (records tb)) @ '' safety events'')]
        @ explore tb
        @ fst (filter_new_york_data_analysis fmt tb)
        @ [Log WARNING ''No New York data found. Showing guidance for manual filtering.'',
           Print (nl # ''Please review the dataset columns above and filter manually.'')])
   \<and> (filter_new_york_data df = Inr ny \<and> prepare_fatal_events_deadly pn ny = [] \<longrightarrow>
      main_deadly pn report (Inr df) =
        [Log INFO ''Starting FTA Deadly Events Visualization...'',
         Log INFO ''Downloading FTA Major Safety Events data...'',
         Log INFO (''Successfully loaded '' @ str_nat (length df) @ '' safety events''),
         Log INFO ''Filtering for New York transit agencies...'',
         Log INFO (''Found '' @ str_nat (length ny) @ '' incidents in New York'')]
        @ prepare_fatal_events_log ''coordinates'' ny []
        @ [Log ERROR ''No fatal incidents with coordinates found for New York''])
   \<and> (filter_new_york_data df = Inr ny \<and> prepare_fatal_events_basemap pn ny = [] \<longrightarrow>
      main_basemap pn report (Inr df) =
        [Log INFO ''Starting FTA NYC Fatal Events Mapping...'',
         Log INFO ''Downloading FTA Major Safety Events data...'',
         Log INFO (''Successfully loaded '' @ str_nat (length df) @ '' safety events''),
         Log INFO ''Filtering for New York transit agencies...'',
         Log INFO (''Found '' @ str_nat (length ny) @ '' incidents in New York'')]
        @ prepare_fatal_events_log ''NYC coordinates'' ny []
        @ [Log ERROR ''No fatal incidents with coordinates found for NYC''])
   \<and> (filter_new_york_data df = Inr ny \<and> prepare_fatal_events_slider pn G ny = [] \<longrightarrow>
      main_slider pn G report (Inr df) =
        [Log INFO ''Starting FTA NYC Fatal Events Time Slider Map...'',
         Log INFO ''Downloading FTA Major Safety Events data...'',
         Log INFO (''Successfully loaded '' @ str_nat (length df) @ '' safety events''),
         Log INFO ''Filtering for New York transit agencies...'',
         Log INFO (''Found '' @ str_nat (length ny) @ '' incidents in New York'')]
        @ prepare_fatal_events_log ''NYC coordinates and dates'' ny []
        @ [Log ERROR ''No fatal incidents with coordinates found for NYC''])
   \<and> main_analysis fmt explore analyze (Inl e) =
        [Log INFO ''Starting FTA Safety Events Analysis for New York...'',
         Log INFO ''Downloading FTA Major Safety Events data...'',
         Log ERROR (''Failed to load data: '' @ e), Log ERROR ''Cannot proceed without data'']
   \<and> main_deadly pn report (Inl e) =
        [Log INFO ''Starting FTA Deadly Events Visualization...'',
         Log INFO ''Downloading FTA Major Safety Events data...'',
         Log ERROR (''Failed to load data: '' @ e), Log ERROR ''Cannot proceed without data'']
   \<and> main_basemap pn report (Inl e) =
        [Log INFO ''Starting FTA NYC Fatal Events Mapping...'',
         Log INFO ''Downloading FTA Major Safety Events data...'',
         Log ERROR (''Failed to load data: '' @ e), Log ERROR ''Cannot proceed without data'']
   \<and> main_slider pn G report (Inl e) =
        [Log INFO ''Starting FTA NYC Fatal Events Time Slider Map...'',
         Log INFO ''Downloading FTA Major Safety Events data...'',
         Log ERROR (''Failed to load data: '' @ e), Log ERROR ''Cannot proceed without data'']"
proof (intro conjI impI)
  assume "snd (filter_new_york_data_analysis fmt tb) = Inr ntb \<and> records ntb = []"
  then have "snd (filter_new_york_data_analysis fmt tb) = Inr ntb" and "records ntb = []"
    by simp_all
  then show "main_analysis fmt explore analyze (Inr tb) =
        [Log INFO ''Starting FTA Safety Events Analysis for New York...'',
         Log INFO ''Downloading FTA Major Safety Events data...'',
         Log INFO (''Successfully loaded '' @ str_nat (length (records tb)) @ '' safety events'')]
        @ explore tb
        @ fst (filter_new_york_data_analysis fmt tb)
        @ [Log WARNING ''No New York data found. Showing guidance for manual filtering.'',
           Print (nl # ''Please review the dataset columns above and filter manually.'')]"
    by (rule main_analysis_empty)
next
  assume "filter_new_york_data df = Inr ny \<and> prepare_fatal_events_deadly pn ny = []"
  then have "filter_new_york_data df = Inr ny" and "prepare_fatal_events_deadly pn ny = []"
    by simp_all
  from main_map_empty [where prepare = "prepare_fatal_events_deadly pn", OF this]
  show "main_deadly pn report (Inr df) =
        [Log INFO ''Starting FTA Deadly Events Visualization...'',
         Log INFO ''Downloading FTA Major Safety Events data...'',
         Log INFO (''Successfully loaded '' @ str_nat (length df) @ '' safety events''),
         Log INFO ''Filtering for New York transit agencies...'',
         Log INFO (''Found '' @ str_nat (length ny) @ '' incidents in New York'')]
        @ prepare_fatal_events_log ''coordinates'' ny []
        @ [Log ERROR ''No fatal incidents with coordinates found for New York'']"
    by (simp add: main_deadly_def)
next
  assume "filter_new_york_data df = Inr ny \<and> prepare_fatal_events_basemap pn ny = []"
  then have "filter_new_york_data df = Inr ny" and "prepare_fatal_events_basemap pn ny = []"
    by simp_all
  from main_map_empty [where prepare = "prepare_fatal_events_basemap pn", OF this]
  show "main_basemap pn report (Inr df) =
        [Log INFO ''Starting FTA NYC Fatal Events Mapping...'',
         Log INFO ''Downloading FTA Major Safety Events data...'',
         Log INFO (''Successfully loaded '' @ str_nat (length df) @ '' safety events''),
         Log INFO ''Filtering for New York transit agencies...'',
         Log INFO (''Found '' @ str_nat (length ny) @ '' incidents in New York'')]
        @ prepare_fatal_events_log ''NYC coordinates'' ny []
        @ [Log ERROR ''No fatal incidents with coordinates found for NYC'']"
    by (simp add: main_basemap_def)
next
  assume "filter_new_york_data df = Inr ny \<and> prepare_fatal_events_slider pn G ny = []"
  then have "filter_new_york_data df = Inr ny" and "prepare_fatal_events_slider pn G ny = []"
    by simp_all
  from main_map_empty [where prepare = "prepare_fatal_events_slider pn G", OF this]
  show "main_slider pn G report (Inr df) =
        [Log INFO ''Starting FTA NYC Fatal Events Time Slider Map...'',
         Log INFO ''Downloading FTA Major Safety Events data...'',
         Log INFO (''Successfully loaded '' @ str_nat (length df) @ '' safety events''),
         Log INFO ''Filtering for New York transit agencies...'',
         Log INFO (''Found '' @ str_nat (length ny) @ '' incidents in New York'')]
        @ prepare_fatal_events_log ''NYC coordinates and dates'' ny []
        @ [Log ERROR ''No fatal incidents with coordinates found for NYC'']"
    by (simp add: main_slider_def)
qed (simp_all add: main_deadly_def main_basemap_def main_slider_def
      main_map_fetch_failure main_analysis_fetch_failure)

lemma filter_analysis_ca:
  "snd (filter_new_york_data_analysis fmt example_ca_table) = Inr (example_ca_table\<lparr>records := []\<rparr>)"
  by (simp add: filter_new_york_data_analysis_def example_ca_table_def Let_def column_def
      str_column_def is_str_def select_mask_def series_str_upper_def str_accessor_def string_simps)

lemma filter_la: "filter_new_york_data [example_la e] = Inr []"
  by (simp add: filter_simps example_la_def)

lemma prepare_nil:
  "prepare_fatal_events_deadly pn [] = []" "prepare_fatal_events_basemap pn [] = []"
  "prepare_fatal_events_slider pn G [] = []"
  by (simp_all add: prepare_fatal_events_deadly_def prepare_fatal_events_basemap_def
      prepare_fatal_events_slider_def to_datetime_def)

text \<open>
  A frame whose only state is not New York, and a frame whose only agency is not a
  New York agency.
\<close>

theorem empty_result_and_fetch_failure_witness:
  "main_analysis (\<lambda>x. ''1.0'') (\<lambda>df. []) (\<lambda>df. []) (Inr example_ca_table) =
        [Log INFO ''Starting FTA Safety Events Analysis for New York...'',
         Log INFO ''Downloading FTA Major Safety Events data...'',
         Log INFO (''Successfully loaded '' @ str_nat (length (records example_ca_table)) @ '' safety events'')]
        @ []
        @ fst (filter_new_york_data_analysis (\<lambda>x. ''1.0'') example_ca_table)
        @ [Log WARNING ''No New York data found. Showing guidance for manual filtering.'',
           Print (nl # ''Please review the dataset columns above and filter manually.'')]
   \<and> main_deadly parse_decimal (\<lambda>df. []) (Inr [example_la None]) =
        [Log INFO ''Starting FTA Deadly Events Visualization...'',
         Log INFO ''Downloading FTA Major Safety Events data...'',
         Log INFO (''Successfully loaded '' @ str_nat (length [example_la None]) @ '' safety events''),
         Log INFO ''Filtering for New York transit agencies...'',
         Log INFO (''Found '' @ str_nat (length ([] :: frame)) @ '' incidents in New York'')]
        @ prepare_fatal_events_log ''coordinates'' [] []
        @ [Log ERROR ''No fatal incidents with coordinates found for New York'']
   \<and> main_basemap parse_decimal (\<lambda>df. []) (Inr [example_la None]) =
        [Log INFO ''Starting FTA NYC Fatal Events Mapping...'',
         Log INFO ''Downloading FTA Major Safety Events data...'',
         Log INFO (''Successfully loaded '' @ str_nat (length [example_la None]) @ '' safety events''),
         Log INFO ''Filtering for New York transit agencies...'',
         Log INFO (''Found '' @ str_nat (length ([] :: frame)) @ '' incidents in New York'')]
        @ prepare_fatal_events_log ''NYC coordinates'' [] []
        @ [Log ERROR ''No fatal incidents with coordinates found for NYC'']
   \<and> main_slider parse_decimal example_datetime (\<lambda>df. []) (Inr [example_la None]) =
        [Log INFO ''Starting FTA NYC Fatal Events Time Slider Map...'',
         Log INFO ''Downloading FTA Major Safety Events data...'',
         Log INFO (''Successfully loaded '' @ str_nat (length [example_la None]) @ '' safety events''),
         Log INFO ''Filtering for New York transit agencies...'',
         Log INFO (''Found '' @ str_nat (length ([] :: frame)) @ '' incidents in New York'')]
        @ prepare_fatal_events_log ''NYC coordinates and dates'' [] []
        @ [Log ERROR ''No fatal incidents with coordinates found for NYC'']"
proof -
  have 1: "snd (filter_new_york_data_analysis (\<lambda>x. ''1.0'') example_ca_table)
      = Inr (example_ca_table\<lparr>records := []\<rparr>) \<and> records (example_ca_table\<lparr>records := []\<rparr>) = []"
    by (simp add: filter_analysis_ca)
  have 2: "filter_new_york_data [example_la None] = Inr []
      \<and> prepare_fatal_events_deadly parse_decimal [] = []"
    by (simp only: filter_la prepare_nil simp_thms)
  have 3: "filter_new_york_data [example_la None] = Inr []
      \<and> prepare_fatal_events_basemap parse_decimal [] = []"
    by (simp only: filter_la prepare_nil simp_thms)
  have 4: "filter_new_york_data [example_la None] = Inr []
      \<and> prepare_fatal_events_slider parse_decimal example_datetime [] = []"
    by (simp only: filter_la prepare_nil simp_thms)
  from empty_result_and_fetch_failure
    [of "\<lambda>x. ''1.0''" example_ca_table "example_ca_table\<lparr>records := []\<rparr>" "\<lambda>df. []" "\<lambda>df. []"
      "[example_la None]" "[]" parse_decimal "\<lambda>df. []" example_datetime "''timeout''"] 1 2 3 4
  show ?thesis by blast
qed

text \<open>
  \<open>fta_deadly_events_map.py\<close> on a frame whose only New York row has no fatality: the
  run ends on an ERROR record; it logs no warning and prints no guidance.
\<close>

theorem no_fatal_incident_logs_error:
  "main_deadly parse_decimal (\<lambda>df. [])
     (Inr [example_la None, (example_mta None)\<lparr>total_fatalities := Some 0\<rparr>]) =
   [Log INFO ''Starting FTA Deadly Events Visualization...'',
    Log INFO ''Downloading FTA Major Safety Events data...'',
    Log INFO ''Successfully loaded 2 safety events'',
    Log INFO ''Filtering for New York transit agencies...'',
    Log INFO ''Found 1 incidents in New York'',
    Log INFO ''Filtering for fatal events with location data...'',
    Log INFO ''Found 0 fatal incidents'',
    Log INFO ''Found 0 fatal incidents with valid coordinates'',
    Log ERROR ''No fatal incidents with coordinates found for New York'']"
proof -
  have f: "filter_new_york_data [example_la None, (example_mta None)\<lparr>total_fatalities := Some 0\<rparr>]
      = Inr [(example_mta None)\<lparr>total_fatalities := Some 0\<rparr>]"
    by (simp add: filter_simps example_mta_def example_la_def)
  have p: "prepare_fatal_events_deadly parse_decimal [(example_mta None)\<lparr>total_fatalities := Some 0\<rparr>] = []"
    by (simp add: prepare_fatal_events_deadly_def example_mta_def fatal_def)
  have n: "\<not> fatal ((example_mta None)\<lparr>total_fatalities := Some 0\<rparr>)"
    by (simp add: example_mta_def fatal_def)
  show ?thesis
    by (simp add: main_deadly_def main_map_def load_fta_data_def Let_def
        prepare_fatal_events_log_def f p n str_nat.simps digit_char_def)
qed

text \<open>
  The same script on a frame whose agency names are all null: the filter raises and
  the run ends there, past the emptiness check.
\<close>

lemma all_null_agency_ends_run:
  "main_deadly pn report
     (Inr [(example_mta None)\<lparr>agency := None\<rparr>, (example_la None)\<lparr>agency := None\<rparr>]) =
   [Log INFO ''Starting FTA Deadly Events Visualization...'',
    Log INFO ''Downloading FTA Major Safety Events data...'',
    Log INFO ''Successfully loaded 2 safety events'',
    Log INFO ''Filtering for New York transit agencies...'',
    Uncaught AttributeError]"
proof -
  have "filter_new_york_data [(example_mta None)\<lparr>agency := None\<rparr>, (example_la None)\<lparr>agency := None\<rparr>]
      = Inl AttributeError"
    by (simp add: filter_new_york_data_def example_mta_def example_la_def)
  then show ?thesis
    by (simp add: main_deadly_def main_map_filter_raises str_nat.simps digit_char_def)
qed

end
